theory Spec2Isabelle
  imports Complex_Main
begin

section \<open>JavaScript arithmetic and indexing\<close>

text \<open>
  The sources are JavaScript. Numbers that the modelled functions handle are integers
  (calendar fields, day counts, minutes); they are modelled as \<open>int\<close>. The remainder
  operator \<open>%\<close> truncates towards zero, so its result has the sign of the dividend.
  Reading an array out of range yields \<open>undefined\<close>, modelled as \<open>None\<close>.
\<close>

definition js_rem :: "int \<Rightarrow> int \<Rightarrow> int" where
  "js_rem a b = (if a < 0 then - ((- a) mod \<bar>b\<bar>) else a mod \<bar>b\<bar>)"

definition js_index :: "'a list \<Rightarrow> int \<Rightarrow> 'a option" where
  "js_index xs i = (if 0 \<le> i \<and> i < int (length xs) then Some (xs ! nat i) else None)"

text \<open>
  A JavaScript number is a binary64 value. On whole numbers below \<open>2^53\<close> in
  magnitude its arithmetic is exact and agrees with \<open>int\<close>; beyond that a sum or
  difference is rounded (\<open>x - 60\<close> is \<open>x\<close> again from about \<open>2^59\<close>, so a loop
  that counts down in steps of 60 makes no progress there). The model is the program on
  whole numbers in the exact range; a property stated for every value of a numeric
  argument carries a bound that keeps every number the call computes in that range. A
  field that is \<open>NaN\<close> has no counterpart in the model.
\<close>

text \<open>A function either returns a value (\<open>Inr\<close>) or throws (\<open>Inl\<close>); the promise
  of an \<open>async\<close> function settles accordingly. The errors of the modelled code are
  the \<open>TypeError\<close> of reading a property of \<open>undefined\<close> and the
  \<open>ReferenceError\<close> of evaluating an identifier that has no binding.\<close>

datatype error = TypeError | ReferenceError

section \<open>The Valdris calendar (time engine)\<close>

record month_data =
  mname :: string
  mdays :: int
  mseason :: string

definition MONTHS :: "month_data list" where
  "MONTHS =
    [\<lparr>mname = ''Frostmorn'', mdays = 30, mseason = ''winter''\<rparr>,
     \<lparr>mname = ''Deepsnow'', mdays = 28, mseason = ''winter''\<rparr>,
     \<lparr>mname = ''Thawbreak'', mdays = 31, mseason = ''spring''\<rparr>,
     \<lparr>mname = ''Rainbloom'', mdays = 30, mseason = ''spring''\<rparr>,
     \<lparr>mname = ''Sunrise'', mdays = 31, mseason = ''spring''\<rparr>,
     \<lparr>mname = ''Highsun'', mdays = 30, mseason = ''summer''\<rparr>,
     \<lparr>mname = ''Goldpeak'', mdays = 31, mseason = ''summer''\<rparr>,
     \<lparr>mname = ''Harvest'', mdays = 31, mseason = ''autumn''\<rparr>,
     \<lparr>mname = ''Leaffall'', mdays = 30, mseason = ''autumn''\<rparr>,
     \<lparr>mname = ''Dimlight'', mdays = 30, mseason = ''autumn''\<rparr>,
     \<lparr>mname = ''Darkeve'', mdays = 30, mseason = ''winter''\<rparr>,
     \<lparr>mname = ''Stillnight'', mdays = 29, mseason = ''winter''\<rparr>]"

definition DAYS_OF_WEEK :: "string list" where
  "DAYS_OF_WEEK =
    [''Firstday'', ''Seconday'', ''Thirdsday'', ''Fourthday'', ''Fifthday'', ''Sixthday'',
     ''Restday'']"

text \<open>\<open>getMonthLength(month, year)\<close>: 30 for a month outside the table; month 12 has
  30 days when \<open>year % 4 === 0\<close>.\<close>

definition getMonthLength :: "int \<Rightarrow> int \<Rightarrow> int" where
  "getMonthLength month year =
    (case js_index MONTHS (month - 1) of
       None \<Rightarrow> 30
     | Some monthData \<Rightarrow>
         if month = 12 \<and> js_rem year 4 = 0 then 30 else mdays monthData)"

text \<open>\<open>getMonthData(month)\<close> is \<open>MONTHS[month - 1] || MONTHS[0]\<close>.\<close>

definition getMonthData :: "int \<Rightarrow> month_data" where
  "getMonthData month =
    (case js_index MONTHS (month - 1) of None \<Rightarrow> hd MONTHS | Some monthData \<Rightarrow> monthData)"

definition getYearLength :: "int \<Rightarrow> int" where
  "getYearLength year = sum_list (map (\<lambda>m. getMonthLength m year) [1..12])"

text \<open>\<open>calculateDayOfWeek\<close> accumulates \<open>totalDays\<close>, the days since the epoch
  (year 1, month 1, day 1), in two loops and one addition. The first loop
  (\<open>for y = 1; y < year\<close>) is \<open>daysBeforeYear\<close>, the second (\<open>for m = 1; m < month\<close>)
  is \<open>daysBeforeMonth\<close>.\<close>

definition daysBeforeYear :: "int \<Rightarrow> int" where
  "daysBeforeYear year = sum_list (map getYearLength [1..year - 1])"

definition daysBeforeMonth :: "int \<Rightarrow> int \<Rightarrow> int" where
  "daysBeforeMonth month year = sum_list (map (\<lambda>m. getMonthLength m year) [1..month - 1])"

definition totalDays :: "int \<Rightarrow> int \<Rightarrow> int \<Rightarrow> int" where
  "totalDays year month day = daysBeforeYear year + daysBeforeMonth month year + (day - 1)"

definition calculateDayOfWeek :: "int \<Rightarrow> int \<Rightarrow> int \<Rightarrow> string option" where
  "calculateDayOfWeek year month day =
    js_index DAYS_OF_WEEK (js_rem (totalDays year month day) 7)"

subsection \<open>The time state\<close>

text \<open>A moon's record. \<open>phase\<close> is \<open>MOON_PHASES[i]\<close>, which is \<open>undefined\<close> for an
  index outside the table; only the second moon carries \<open>visible\<close>; \<open>previousPhase\<close>
  is the field \<open>_previousPhase\<close>, absent until the first update.\<close>

record moon =
  phase :: "string option"
  dayInCycle :: int
  daysUntilFull :: int
  daysUntilNew :: int
  visible :: "bool option"
  effects :: "string list"
  previousPhase :: "string option"

record moons_state =
  lunara :: moon
  veil :: moon

record sun_times =
  sunrise :: string
  sunset :: string
  dayLength :: real

text \<open>The time state as \<open>createDefaultTimeState\<close> builds it. Its fields \<open>weather\<close>,
  \<open>celestialEvents\<close>, \<open>upcomingFestivals\<close> and \<open>settings\<close> are neither read nor
  written by the functions modelled here and are left out of the record.\<close>

record time_state =
  year :: int
  month :: int
  day :: int
  hour :: int
  minute :: int
  monthName :: string
  season :: string
  dayOfWeek :: "string option"
  moons :: moons_state
  celestialEffects :: "string list"
  sun :: sun_times
  lastUpdate :: int

text \<open>\<open>Date.now()\<close> is an argument (\<open>now\<close>) of every function that reads the clock.\<close>

definition createDefaultTimeState :: "int \<Rightarrow> time_state" where
  "createDefaultTimeState now =
    \<lparr>year = 2847, month = 7, day = 14, hour = 18, minute = 0,
     monthName = ''Harvest'', season = ''autumn'', dayOfWeek = Some ''Thirdsday'',
     moons =
       \<lparr>lunara = \<lparr>phase = Some ''waxing_gibbous'', dayInCycle = 11, daysUntilFull = 3,
                   daysUntilNew = 17, visible = None, effects = [], previousPhase = None\<rparr>,
        veil = \<lparr>phase = Some ''new'', dayInCycle = 0, daysUntilFull = 17,
                 daysUntilNew = 0, visible = Some False, effects = [], previousPhase = None\<rparr>\<rparr>,
     celestialEffects = [],
     sun = \<lparr>sunrise = ''6:30'', sunset = ''18:30'', dayLength = 12\<rparr>,
     lastUpdate = now\<rparr>"

subsection \<open>Derived values\<close>

definition updateSunTimes :: "time_state \<Rightarrow> time_state" where
  "updateSunTimes state =
    state\<lparr>sun :=
      (if season state = ''winter'' then
         \<lparr>sunrise = ''7:30'', sunset = ''17:00'', dayLength = 9.5\<rparr>
       else if season state = ''spring'' then
         \<lparr>sunrise = ''6:00'', sunset = ''19:00'', dayLength = 13\<rparr>
       else if season state = ''summer'' then
         \<lparr>sunrise = ''5:00'', sunset = ''21:00'', dayLength = 16\<rparr>
       else \<lparr>sunrise = ''6:30'', sunset = ''18:30'', dayLength = 12\<rparr>)\<rparr>"

definition updateDerivedValues :: "time_state \<Rightarrow> time_state" where
  "updateDerivedValues state =
    (let monthData = getMonthData (month state) in
     updateSunTimes
       (state\<lparr>monthName := mname monthData,
              season := mseason monthData,
              dayOfWeek := calculateDayOfWeek (year state) (month state) (day state)\<rparr>))"

subsection \<open>Moon phases\<close>

definition MOON_PHASES :: "string list" where
  "MOON_PHASES =
    [''new'', ''waxing_crescent'', ''first_quarter'', ''waxing_gibbous'', ''full'',
     ''waning_gibbous'', ''last_quarter'', ''waning_crescent'']"

definition LUNARA_CYCLE :: int where
  "LUNARA_CYCLE = 28"

definition VEIL_CYCLE :: int where
  "VEIL_CYCLE = 35"

text \<open>\<open>Math.floor(dayInCycle / (CYCLE / 8))\<close>: the quotient \<open>CYCLE / 8\<close> is a
  fraction (3.5 and 4.375), so the division is taken in the reals and floored.\<close>

definition phaseIndex :: "int \<Rightarrow> int \<Rightarrow> int" where
  "phaseIndex cycle d = \<lfloor>real_of_int d / (real_of_int cycle / 8)\<rfloor>"

definition getMoonEffects :: "string \<Rightarrow> string option \<Rightarrow> string list" where
  "getMoonEffects moonName ph =
    (if moonName = ''lunara'' then
       (if ph = Some ''full'' then
          [''Undead +20% active'', ''Lycanthrope transformation'', ''Tides high'',
           ''Moonlight bright'']
        else if ph = Some ''new'' then
          [''Undead -10% active'', ''Dark vision impaired'', ''Stealth enhanced'']
        else if ph = Some ''waxing_gibbous'' \<or> ph = Some ''waning_gibbous'' then
          [''Undead +10% active'']
        else [])
     else if moonName = ''veil'' then
       (if ph = Some ''full'' then
          [''Shadow magic enhanced'', ''Veil between worlds thin'', ''Spirit activity high'']
        else if ph = Some ''new'' then
          [''Shadow magic weakened'', ''Spirits dormant'']
        else [])
     else [])"

definition updateCelestialEffects :: "time_state \<Rightarrow> time_state" where
  "updateCelestialEffects state =
    (let l = lunara (moons state); v = veil (moons state) in
     state\<lparr>celestialEffects :=
       (if phase l = Some ''full'' \<and> phase v = Some ''full''
        then [''Convergence Night - All magical effects doubled''] else []) @
       (if phase l = Some ''full'' \<and> dayInCycle v = \<lfloor>real_of_int VEIL_CYCLE / 2\<rfloor>
        then [''Veil's Eclipse - Undead surge, shadow magic peaks''] else []) @
       (if phase l = Some ''new'' \<and> phase v = Some ''new''
        then [''Void Night - Near total darkness, aberrations stir''] else [])\<rparr>)"

text \<open>One moon's update inside \<open>updateMoonPhases\<close>; the two blocks of the source differ
  in the cycle constant, the name passed to \<open>getMoonEffects\<close> and the \<open>visible\<close>
  assignment, which only the Veil block has. \<open>x % c || c\<close> is \<open>c\<close> when the
  remainder is 0.\<close>

definition updateLunara :: "moon \<Rightarrow> moon" where
  "updateLunara m =
    (let d = js_rem (dayInCycle m + 1) LUNARA_CYCLE;
         ph = js_index MOON_PHASES (phaseIndex LUNARA_CYCLE d)
     in m\<lparr>dayInCycle := d,
           phase := ph,
           daysUntilFull := js_rem (\<lfloor>real_of_int LUNARA_CYCLE / 2\<rfloor> - d + LUNARA_CYCLE) LUNARA_CYCLE,
           daysUntilNew :=
             (if js_rem (LUNARA_CYCLE - d) LUNARA_CYCLE = 0 then LUNARA_CYCLE
              else js_rem (LUNARA_CYCLE - d) LUNARA_CYCLE),
           effects := getMoonEffects ''lunara'' ph\<rparr>)"

definition updateVeil :: "moon \<Rightarrow> moon" where
  "updateVeil m =
    (let d = js_rem (dayInCycle m + 1) VEIL_CYCLE;
         ph = js_index MOON_PHASES (phaseIndex VEIL_CYCLE d)
     in m\<lparr>dayInCycle := d,
           phase := ph,
           visible := Some (ph \<noteq> Some ''new''),
           daysUntilFull := js_rem (\<lfloor>real_of_int VEIL_CYCLE / 2\<rfloor> - d + VEIL_CYCLE) VEIL_CYCLE,
           daysUntilNew :=
             (if js_rem (VEIL_CYCLE - d) VEIL_CYCLE = 0 then VEIL_CYCLE
              else js_rem (VEIL_CYCLE - d) VEIL_CYCLE),
           effects := getMoonEffects ''veil'' ph\<rparr>)"


text \<open>\<open>updateMoonPhases\<close>: both moons step by one day, the celestial effects are
  recomputed, and each moon remembers its phase in \<open>_previousPhase\<close>. The
  \<open>moonPhaseChanged\<close> notifications it sends to the event bus are not part of the
  state and are not modelled.\<close>

definition updateMoonPhases :: "time_state \<Rightarrow> time_state" where
  "updateMoonPhases state =
    (let l = updateLunara (lunara (moons state));
         v = updateVeil (veil (moons state));
         state1 = updateCelestialEffects (state\<lparr>moons := \<lparr>lunara = l, veil = v\<rparr>\<rparr>)
     in state1\<lparr>moons :=
          \<lparr>lunara = (lunara (moons state1))\<lparr>previousPhase := phase (lunara (moons state1))\<rparr>,
           veil = (veil (moons state1))\<lparr>previousPhase := phase (veil (moons state1))\<rparr>\<rparr>\<rparr>)"

subsection \<open>Advancing and setting the time\<close>

text \<open>The three overflow loops of \<open>advanceTime\<close>. Each \<open>while\<close> loop is a recursive
  function on the variables it changes: the state, and the local flags \<open>dayAdvanced\<close>,
  \<open>monthAdvanced\<close> and \<open>yearAdvanced\<close>. They are the loops of the source on whole
  numbers in the exact range (see the remark on numbers above); on far larger numbers
  the loops of the source make no progress and do not end, where these do.\<close>

function minuteOverflow :: "time_state \<Rightarrow> time_state" where
  "minuteOverflow state =
    (if minute state \<ge> 60
     then minuteOverflow (state\<lparr>minute := minute state - 60, hour := hour state + 1\<rparr>)
     else state)"
  by pat_completeness auto
termination
  by (relation "measure (\<lambda>s. nat (minute s))") auto

function hourOverflow :: "time_state \<times> bool \<Rightarrow> time_state \<times> bool" where
  "hourOverflow (state, dayAdvanced) =
    (if hour state \<ge> 24
     then hourOverflow (state\<lparr>hour := hour state - 24, day := day state + 1\<rparr>, True)
     else (state, dayAdvanced))"
  by pat_completeness auto
termination
  by (relation "measure (\<lambda>(s, b). nat (hour s))") auto

text \<open>The day loop. The source reads \<open>monthLength = getMonthLength(state.month,
  state.year)\<close> once, before the loop, into a constant; \<open>month0\<close> and \<open>year0\<close> are the
  month and year at that point, so \<open>monthLength\<close> has the same value in every iteration
  while \<open>state.month\<close> and \<open>state.year\<close> move on.\<close>

function dayOverflow :: "int \<Rightarrow> int \<Rightarrow> time_state \<times> bool \<times> bool \<Rightarrow> time_state \<times> bool \<times> bool" where
  "dayOverflow month0 year0 (state, monthAdvanced, yearAdvanced) =
    (let monthLength = getMonthLength month0 year0 in
     if day state > monthLength
     then
       (let state1 = state\<lparr>day := day state - monthLength, month := month state + 1\<rparr> in
        if month state1 > 12
        then dayOverflow month0 year0 (state1\<lparr>month := 1, year := year state1 + 1\<rparr>, True, True)
        else dayOverflow month0 year0 (state1, True, yearAdvanced))
     else (state, monthAdvanced, yearAdvanced))"
  by pat_completeness auto
termination
proof (relation "measure (\<lambda>(m0, y0, s, b, c). nat (day s))")
  show "wf (measure (\<lambda>(m0, y0, s, b, c). nat (day s)))" by simp
next
  fix month0 year0 :: int and state state1 :: time_state
    and monthAdvanced yearAdvanced :: bool and monthLength :: int
  assume ml: "monthLength = getMonthLength month0 year0"
    and gt: "monthLength < day state"
    and s1: "state1 = state\<lparr>day := day state - monthLength, month := month state + 1\<rparr>"
  have "x \<in> set MONTHS \<Longrightarrow> 28 \<le> mdays x" for x
    by (auto simp: MONTHS_def)
  moreover have "js_index MONTHS i = Some x \<Longrightarrow> x \<in> set MONTHS" for i x
    by (auto simp: js_index_def split: if_splits)
  ultimately have "28 \<le> getMonthLength month0 year0"
    unfolding getMonthLength_def by (fastforce split: option.splits)
  then have "28 \<le> monthLength" using ml by simp
  with gt s1 have "nat (day state1) < nat (day state)" by simp
  then show "((month0, year0, state1\<lparr>month := 1, year := year state1 + 1\<rparr>, True, True),
      (month0, year0, state, monthAdvanced, yearAdvanced))
      \<in> measure (\<lambda>(m0, y0, s, b, c). nat (day s))" by simp
  from \<open>nat (day state1) < nat (day state)\<close>
  show "((month0, year0, state1, True, yearAdvanced),
      (month0, year0, state, monthAdvanced, yearAdvanced))
      \<in> measure (\<lambda>(m0, y0, s, b, c). nat (day s))" by simp
qed

text \<open>\<open>advanceTime(minutes)\<close>. The domain store holds the time state or nothing
  (\<open>getDomainState\<close> returns \<open>null\<close>); the function returns the settled promise and
  the store after the call. The state object is changed in place and written back with
  \<open>setDomainState\<close>, whose caller owns the domain. The notifications \<open>timeAdvanced\<close>,
  \<open>newDay\<close>, \<open>newMonth\<close> and \<open>newYear\<close> go to the event bus and are not
  modelled; the function has no \<open>throw\<close>.\<close>

definition advanceTime ::
  "int \<Rightarrow> int \<Rightarrow> time_state option \<Rightarrow> (error + time_state option) \<times> time_state option" where
  "advanceTime minutes now store =
    (if minutes \<le> 0 then (Inr store, store)
     else
       (let state = (case store of Some s \<Rightarrow> s | None \<Rightarrow> createDefaultTimeState now);
            state1 = minuteOverflow (state\<lparr>minute := minute state + minutes\<rparr>);
            (state2, dayAdvanced) = hourOverflow (state1, False);
            (state3, monthAdvanced, yearAdvanced) =
              dayOverflow (month state2) (year state2) (state2, False, False);
            state4 = updateDerivedValues state3;
            state5 = (if dayAdvanced then updateMoonPhases state4 else state4);
            state6 = state5\<lparr>lastUpdate := now\<rparr>
        in (Inr (Some state6), Some state6)))"

text \<open>\<open>setTime(newTime)\<close>: a field of the partial update that is \<open>undefined\<close> is
  \<open>None\<close>; a field that is given is a whole number (\<open>Math.max\<close> and \<open>Math.min\<close>
  return \<open>NaN\<close> on a \<open>NaN\<close> field, which the model does not cover).\<close>

record partial_time =
  new_year :: "int option"
  new_month :: "int option"
  new_day :: "int option"
  new_hour :: "int option"
  new_minute :: "int option"

definition setTime ::
  "partial_time \<Rightarrow> int \<Rightarrow> time_state option \<Rightarrow> (error + time_state) \<times> time_state option" where
  "setTime newTime now store =
    (let state = (case store of Some s \<Rightarrow> s | None \<Rightarrow> createDefaultTimeState now);
         state1 = state\<lparr>year := (case new_year newTime of Some v \<Rightarrow> v | None \<Rightarrow> year state),
                        month := (case new_month newTime of Some v \<Rightarrow> v | None \<Rightarrow> month state),
                        day := (case new_day newTime of Some v \<Rightarrow> v | None \<Rightarrow> day state),
                        hour := (case new_hour newTime of Some v \<Rightarrow> v | None \<Rightarrow> hour state),
                        minute := (case new_minute newTime of Some v \<Rightarrow> v | None \<Rightarrow> minute state)\<rparr>;
         state2 = state1\<lparr>month := max 1 (min 12 (month state1))\<rparr>;
         state3 = state2\<lparr>day := max 1 (min (getMonthLength (month state2) (year state2)) (day state2))\<rparr>;
         state4 = state3\<lparr>hour := max 0 (min 23 (hour state3))\<rparr>;
         state5 = state4\<lparr>minute := max 0 (min 59 (minute state4))\<rparr>;
         state6 = updateMoonPhases (updateDerivedValues state5);
         state7 = state6\<lparr>lastUpdate := now\<rparr>
     in (Inr state7, Some state7))"

text \<open>The absolute minute count of a state under the calendar's own day count
  (\<open>totalDays\<close>, as \<open>calculateDayOfWeek\<close> computes it).\<close>

definition absoluteMinutes :: "time_state \<Rightarrow> int" where
  "absoluteMinutes state =
    (totalDays (year state) (month state) (day state) * 24 + hour state) * 60 + minute state"

text \<open>The calendar invariant of the data model.\<close>

definition dayInRange :: "time_state \<Rightarrow> bool" where
  "dayInRange state =
    (1 \<le> day state \<and> day state \<le> getMonthLength (month state) (year state))"

definition wellFormed :: "time_state \<Rightarrow> bool" where
  "wellFormed state =
    (1 \<le> month state \<and> month state \<le> 12 \<and> dayInRange state \<and>
     0 \<le> hour state \<and> hour state \<le> 23 \<and> 0 \<le> minute state \<and> minute state \<le> 59)"

subsection \<open>Skipping to a time of day\<close>

text \<open>The \<open>switch\<close> of \<open>calculateSkipToMinutes\<close>: the target hour of a symbolic
  target, \<open>None\<close> for the \<open>default\<close> branch.\<close>

definition targetHourOf :: "string \<Rightarrow> int option" where
  "targetHourOf target =
    (if target = ''morning'' then Some 7
     else if target = ''noon'' then Some 12
     else if target = ''evening'' then Some 18
     else if target = ''night'' then Some 21
     else if target = ''midnight'' then Some 0
     else None)"

definition calculateSkipToMinutes :: "time_state \<Rightarrow> string \<Rightarrow> int" where
  "calculateSkipToMinutes currentTime target =
    (let currentHour = hour currentTime;
         currentMinute = minute currentTime
     in case targetHourOf target of
          None \<Rightarrow> 0
        | Some targetHour \<Rightarrow>
            (let hoursToSkip = targetHour - currentHour;
                 hoursToSkip = (if hoursToSkip \<le> 0 then hoursToSkip + 24 else hoursToSkip)
             in hoursToSkip * 60 - currentMinute))"

section \<open>Narrative duration estimation (time engine)\<close>

subsection \<open>Regular expressions\<close>

text \<open>A JavaScript string is a sequence of UTF-16 code units, modelled as natural
  numbers; \<open>js_str\<close> turns a literal of this theory into one.\<close>

type_synonym js_string = "nat list"

definition js_str :: "string \<Rightarrow> js_string" where
  "js_str s = map of_char s"

text \<open>The part of the regular expression language that \<open>DURATION_PATTERNS\<close> uses:
  literal characters, \<open>\d\<close>, \<open>\s\<close>, sequence, alternative, the greedy star, and a
  capturing group. \<open>x?\<close> is \<open>x|(empty)\<close>, \<open>x+\<close> is \<open>xx*\<close>, and \<open>(?:x)\<close> is
  grouping only.\<close>

datatype regex =
    Chr nat
  | Digit
  | Space
  | Eps
  | Seq regex regex
  | Alt regex regex
  | Star regex
  | Group regex

text \<open>Every pattern has the flag \<open>i\<close>: two code units match when their canonical
  (upper case) forms agree. The literals of the patterns are ASCII, and a code unit
  outside ASCII is never canonicalised into ASCII, so the ASCII letters are the only
  code units that matter.\<close>

definition canonicalize :: "nat \<Rightarrow> nat" where
  "canonicalize c = (if 97 \<le> c \<and> c \<le> 122 then c - 32 else c)"

definition isDigit :: "nat \<Rightarrow> bool" where
  "isDigit c = (48 \<le> c \<and> c \<le> 57)"

text \<open>\<open>\s\<close>: the white space and line terminator code units of ECMAScript.\<close>

definition isSpace :: "nat \<Rightarrow> bool" where
  "isSpace c =
    (c \<in> {9, 10, 11, 12, 13, 32, 160, 5760, 8232, 8233, 8239, 8287, 12288, 65279} \<or>
     (8192 \<le> c \<and> c \<le> 8202))"

text \<open>The backtracking matcher. \<open>run r s c\<close> lists, in the order in which the engine
  tries them, the ways \<open>r\<close> can match a prefix of \<open>s\<close>: each is the rest of the input
  and the text captured by group 1 so far (\<open>c\<close> before the match). Alternatives are
  tried left to right, the star takes another iteration before it stops, and an
  iteration that consumes nothing is rejected.\<close>

function run :: "regex \<Rightarrow> js_string \<Rightarrow> js_string option \<Rightarrow> (js_string \<times> js_string option) list" where
  "run (Chr a) s c =
    (case s of [] \<Rightarrow> [] | x # xs \<Rightarrow> if canonicalize x = canonicalize a then [(xs, c)] else [])"
| "run Digit s c = (case s of [] \<Rightarrow> [] | x # xs \<Rightarrow> if isDigit x then [(xs, c)] else [])"
| "run Space s c = (case s of [] \<Rightarrow> [] | x # xs \<Rightarrow> if isSpace x then [(xs, c)] else [])"
| "run Eps s c = [(s, c)]"
| "run (Seq r1 r2) s c = concat (map (\<lambda>p. run r2 (fst p) (snd p)) (run r1 s c))"
| "run (Alt r1 r2) s c = run r1 s c @ run r2 s c"
| "run (Star r) s c =
    concat (map (\<lambda>p. if length (fst p) < length s then run (Star r) (fst p) (snd p) else [])
      (run r s c)) @ [(s, c)]"
| "run (Group r) s c =
    map (\<lambda>p. (fst p, Some (take (length s - length (fst p)) s))) (run r s c)"
  by pat_completeness auto
termination
  by (relation "inv_image (less_than <*lex*> less_than) (\<lambda>(r, s, c). (size r, length s))") auto

text \<open>\<open>text.match(pattern)\<close> for a pattern without the flag \<open>g\<close>: the match is
  tried at every start position from the left, and the first way the engine finds
  wins. \<open>None\<close> is \<open>null\<close>; \<open>Some c\<close> is a match array whose element 1 is \<open>c\<close>
  (\<open>undefined\<close> when the group took no part).\<close>

fun regex_match :: "regex \<Rightarrow> js_string \<Rightarrow> js_string option option" where
  "regex_match r [] = (case run r [] None of [] \<Rightarrow> None | p # _ \<Rightarrow> Some (snd p))"
| "regex_match r (x # xs) =
    (case run r (x # xs) None of [] \<Rightarrow> regex_match r xs | p # _ \<Rightarrow> Some (snd p))"

text \<open>\<open>match[i]\<close>: the patterns have one capturing group at most, so every other
  index but 1 reads \<open>undefined\<close> (index 0, the whole match, is never read).\<close>

definition match_group :: "js_string option \<Rightarrow> int \<Rightarrow> js_string option" where
  "match_group m i = (if i = 1 then m else None)"

text \<open>\<open>parseInt\<close> on a capture of \<open>(\d+)\<close>: the decimal value of the leading digits,
  \<open>NaN\<close> (\<open>None\<close>) when there is none or the argument is \<open>undefined\<close>. Numbers
  are exact integers here; JavaScript rounds a value beyond \<open>2^53\<close>.\<close>

definition parseInt :: "js_string option \<Rightarrow> int option" where
  "parseInt m =
    (case m of
       None \<Rightarrow> None
     | Some s \<Rightarrow>
         (case takeWhile isDigit s of
            [] \<Rightarrow> None
          | ds \<Rightarrow> Some (foldl (\<lambda>n d. 10 * n + (int d - 48)) 0 ds)))"

subsection \<open>The pattern table\<close>

definition lit :: "string \<Rightarrow> regex" where
  "lit s = foldr (\<lambda>ch r. Seq (Chr (of_char ch)) r) s Eps"

definition opt :: "regex \<Rightarrow> regex" where
  "opt r = Alt r Eps"

definition plus_re :: "regex \<Rightarrow> regex" where
  "plus_re r = Seq r (Star r)"

definition seqs :: "regex list \<Rightarrow> regex" where
  "seqs rs = foldr Seq rs Eps"

fun alts :: "regex list \<Rightarrow> regex" where
  "alts [] = Eps"
| "alts [r] = r"
| "alts (r # rs) = Alt r (alts rs)"

text \<open>\<open>\s*\<close>\<close>

definition ws :: regex where
  "ws = Star Space"

text \<open>A pattern's \<open>type\<close> with the fields that go with it: \<open>extract\<close> for the three
  numeric types, \<open>minutes\<close> for \<open>fixed\<close>, \<open>target\<close> for \<open>skipTo\<close> and \<open>estimate\<close>
  for \<open>scene\<close>.\<close>

datatype pattern_type =
    Hours int
  | Minutes int
  | Days int
  | Fixed int
  | SkipTo string
  | Scene int

record duration_pattern =
  pattern :: regex
  ptype :: pattern_type
  priority :: int

definition later_pass_passed :: regex where
  "later_pass_passed = alts [lit ''later'', lit ''pass'', lit ''have passed'']"

definition later_pass :: regex where
  "later_pass = alts [lit ''later'', lit ''pass'']"

definition a_an_one :: regex where
  "a_an_one = alts [lit ''a'', lit ''an'', lit ''one'']"

definition your_their :: regex where
  "your_their = alts [lit ''your'', lit ''their'']"

definition DURATION_PATTERNS :: "duration_pattern list" where
  "DURATION_PATTERNS =
    [\<lparr>pattern = seqs [Group (plus_re Digit), ws, lit ''hour'', opt (lit ''s''), ws, later_pass_passed],
      ptype = Hours 1, priority = 10\<rparr>,
     \<lparr>pattern = seqs [Group (plus_re Digit), ws, lit ''minute'', opt (lit ''s''), ws, later_pass_passed],
      ptype = Minutes 1, priority = 10\<rparr>,
     \<lparr>pattern = seqs [Group (plus_re Digit), ws, lit ''day'', opt (lit ''s''), ws, later_pass_passed],
      ptype = Days 1, priority = 10\<rparr>,
     \<lparr>pattern = seqs [lit ''half'', ws, opt (seqs [lit ''a'', opt (lit ''n''), ws]), lit ''hour'', ws,
        later_pass],
      ptype = Fixed 30, priority = 10\<rparr>,
     \<lparr>pattern = seqs [a_an_one, ws, lit ''hour'', ws, later_pass],
      ptype = Fixed 60, priority = 10\<rparr>,
     \<lparr>pattern = seqs [a_an_one, ws, lit ''day'', ws, later_pass],
      ptype = Fixed 1440, priority = 10\<rparr>,
     \<lparr>pattern = seqs [lit ''several'', ws, lit ''hour'', opt (lit ''s''), ws, later_pass],
      ptype = Fixed 180, priority = 9\<rparr>,
     \<lparr>pattern = seqs [opt (seqs [lit ''a'', ws]), lit ''few'', ws, lit ''hour'', opt (lit ''s''), ws,
        later_pass],
      ptype = Fixed 120, priority = 9\<rparr>,
     \<lparr>pattern = seqs [opt (seqs [lit ''a'', ws]), lit ''few'', ws, lit ''minute'', opt (lit ''s''), ws,
        later_pass],
      ptype = Fixed 10, priority = 9\<rparr>,
     \<lparr>pattern = seqs [lit ''the'', ws, lit ''next'', ws, Group (alts [lit ''morning'', lit ''day''])],
      ptype = SkipTo ''morning'', priority = 8\<rparr>,
     \<lparr>pattern = seqs [lit ''the'', ws, lit ''next'', ws, lit ''evening''],
      ptype = SkipTo ''evening'', priority = 8\<rparr>,
     \<lparr>pattern = seqs [lit ''the'', ws, lit ''next'', ws, lit ''night''],
      ptype = SkipTo ''night'', priority = 8\<rparr>,
     \<lparr>pattern = seqs [lit ''the'', ws, lit ''following'', ws,
        Group (alts [lit ''morning'', lit ''day''])],
      ptype = SkipTo ''morning'', priority = 8\<rparr>,
     \<lparr>pattern = alts [seqs [lit ''dawn'', ws, lit ''breaks''], lit ''sunrise'',
        seqs [lit ''morning'', ws, lit ''comes''],
        seqs [lit ''wake'', ws, alts [lit ''up'', lit ''to'']]],
      ptype = SkipTo ''morning'', priority = 7\<rparr>,
     \<lparr>pattern = alts [seqs [lit ''night'', ws, lit ''falls''], lit ''sunset'',
        seqs [lit ''dusk'', ws, alts [lit ''falls'', lit ''comes'']],
        seqs [lit ''evening'', ws, lit ''comes'']],
      ptype = SkipTo ''evening'', priority = 7\<rparr>,
     \<lparr>pattern = alts [lit ''midnight'', seqs [lit ''dead'', ws, lit ''of'', ws, lit ''night'']],
      ptype = SkipTo ''midnight'', priority = 7\<rparr>,
     \<lparr>pattern = alts [lit ''noon'', lit ''midday'',
        seqs [lit ''middle'', ws, lit ''of'', ws, lit ''the'', ws, lit ''day'']],
      ptype = SkipTo ''noon'', priority = 7\<rparr>,
     \<lparr>pattern = seqs [alts [lit ''fierce'', lit ''brutal'', lit ''long'', lit ''extended''], ws,
        alts [lit ''combat'', lit ''fight'', lit ''battle'']],
      ptype = Scene 15, priority = 5\<rparr>,
     \<lparr>pattern = alts [lit ''combat'', lit ''fight'', lit ''battle'', lit ''attack'', lit ''clash'',
        lit ''skirmish''],
      ptype = Scene 5, priority = 4\<rparr>,
     \<lparr>pattern = alts [seqs [lit ''long'', ws, lit ''rest''], lit ''sleep'',
        seqs [lit ''camp'', ws, lit ''for'', ws, lit ''the'', ws, lit ''night''],
        seqs [lit ''retire'', ws, lit ''for'', ws, lit ''the'', ws,
          alts [lit ''night'', lit ''evening'']]],
      ptype = Scene 480, priority = 6\<rparr>,
     \<lparr>pattern = alts [seqs [lit ''short'', ws, lit ''rest''], lit ''breather'',
        seqs [lit ''catch'', ws, opt your_their, ws, lit ''breath''],
        seqs [lit ''take'', ws, lit ''a'', ws, lit ''break'']],
      ptype = Scene 60, priority = 5\<rparr>,
     \<lparr>pattern = alts [lit ''travel'', lit ''journey'', lit ''walk'', lit ''ride'', lit ''march'',
        lit ''trek'', seqs [lit ''make'', ws, your_their, ws, lit ''way'']],
      ptype = Scene 120, priority = 4\<rparr>,
     \<lparr>pattern = seqs [lit ''long'', ws, alts [lit ''conversation'', lit ''discussion'', lit ''talk'']],
      ptype = Scene 45, priority = 5\<rparr>,
     \<lparr>pattern = alts [lit ''conversation'', lit ''talk'', lit ''discuss'', lit ''speak'', lit ''chat''],
      ptype = Scene 15, priority = 4\<rparr>,
     \<lparr>pattern = alts [lit ''meal'', lit ''breakfast'', lit ''lunch'', lit ''dinner'', lit ''supper'',
        lit ''feast'', lit ''banquet''],
      ptype = Scene 45, priority = 4\<rparr>,
     \<lparr>pattern = seqs [lit ''quick'', ws, alts [lit ''meal'', lit ''bite'', lit ''snack'']],
      ptype = Scene 15, priority = 5\<rparr>,
     \<lparr>pattern = alts [lit ''shop'', lit ''browse'', lit ''merchant'', lit ''store'', lit ''market'',
        lit ''bazaar'', lit ''trade''],
      ptype = Scene 30, priority = 4\<rparr>,
     \<lparr>pattern = alts [lit ''search'', lit ''examine'', lit ''investigate'',
        seqs [lit ''look'', ws, lit ''around''], lit ''explore'', lit ''scout''],
      ptype = Scene 20, priority = 4\<rparr>,
     \<lparr>pattern = alts [lit ''train'', lit ''practice'', lit ''spar'', lit ''exercise'', lit ''drill''],
      ptype = Scene 60, priority = 4\<rparr>,
     \<lparr>pattern = alts [lit ''study'', lit ''read'', lit ''research'', lit ''learn''],
      ptype = Scene 60, priority = 4\<rparr>,
     \<lparr>pattern = alts [lit ''craft'', lit ''forge'', lit ''brew'', lit ''create'', lit ''make''],
      ptype = Scene 120, priority = 4\<rparr>,
     \<lparr>pattern = alts [lit ''meditate'', lit ''pray'', lit ''ritual'', lit ''ceremony''],
      ptype = Scene 30, priority = 4\<rparr>,
     \<lparr>pattern = alts [lit ''wait'', lit ''waiting'', seqs [lit ''bide'', ws, your_their, ws, lit ''time'']],
      ptype = Scene 30, priority = 3\<rparr>]"

subsection \<open>The estimator\<close>

text \<open>A number in a template string: the decimal digits of an integer (the
  exponent notation of JavaScript starts at \<open>10^21\<close>).\<close>

function decimal :: "nat \<Rightarrow> string" where
  "decimal n = (if n < 10 then [char_of (48 + n)] else decimal (n div 10) @ [char_of (48 + n mod 10)])"
  by pat_completeness auto
termination
  by (relation "measure id") auto

definition showInt :: "int \<Rightarrow> string" where
  "showInt i = (if i < 0 then ''-'' @ decimal (nat (- i)) else decimal (nat i))"

text \<open>An entry of \<open>detectedTypes\<close>: \<open>{pattern, value}\<close> for an explicit rule and
  \<open>{pattern, estimate}\<close> for a scene rule. \<open>pattern\<close> is the source text of the
  regular expression, kept here as the expression itself; the field \<open>value\<close> is
  \<open>valueText\<close>.\<close>

record detected_type =
  d_pattern :: regex
  valueText :: "string option"
  d_estimate :: "int option"

record estimate_result =
  minutes :: int
  confidence :: string
  detectedTypes :: "detected_type list"
  skipTo :: "string option"

text \<open>\<open>!result.skipTo\<close> holds of \<open>null\<close>, \<open>undefined\<close> and the empty string.\<close>

definition noSkipTo :: "string option \<Rightarrow> bool" where
  "noSkipTo t = (case t of None \<Rightarrow> True | Some x \<Rightarrow> x = [])"

text \<open>\<open>d => d.estimate\<close>: a number other than 0.\<close>

definition hasEstimate :: "detected_type \<Rightarrow> bool" where
  "hasEstimate d = (case d_estimate d of None \<Rightarrow> False | Some e \<Rightarrow> e \<noteq> 0)"

text \<open>The body of the loop over \<open>DURATION_PATTERNS\<close>, on the two variables the loop
  changes: \<open>result\<close> and \<open>highestPriority\<close>. A \<open>continue\<close> leaves both as they
  are.\<close>

definition applyPattern ::
  "js_string \<Rightarrow> duration_pattern \<Rightarrow> estimate_result \<times> int \<Rightarrow> estimate_result \<times> int" where
  "applyPattern responseText p acc =
    (let result = fst acc; highestPriority = snd acc in
     case regex_match (pattern p) responseText of
       None \<Rightarrow> acc
     | Some m \<Rightarrow>
         if priority p < highestPriority then acc
         else
           (case ptype p of
              Hours extract \<Rightarrow>
                (case parseInt (match_group m extract) of
                   None \<Rightarrow> acc
                 | Some hours \<Rightarrow>
                     (result\<lparr>minutes := hours * 60, confidence := ''high'',
                        detectedTypes := [\<lparr>d_pattern = pattern p,
                          valueText = Some (showInt hours @ '' hours''), d_estimate = None\<rparr>]\<rparr>,
                      priority p))
            | Minutes extract \<Rightarrow>
                (case parseInt (match_group m extract) of
                   None \<Rightarrow> acc
                 | Some mins \<Rightarrow>
                     (result\<lparr>minutes := mins, confidence := ''high'',
                        detectedTypes := [\<lparr>d_pattern = pattern p,
                          valueText = Some (showInt mins @ '' minutes''), d_estimate = None\<rparr>]\<rparr>,
                      priority p))
            | Days extract \<Rightarrow>
                (case parseInt (match_group m extract) of
                   None \<Rightarrow> acc
                 | Some days \<Rightarrow>
                     (result\<lparr>minutes := days * 1440, confidence := ''high'',
                        detectedTypes := [\<lparr>d_pattern = pattern p,
                          valueText = Some (showInt days @ '' days''), d_estimate = None\<rparr>]\<rparr>,
                      priority p))
            | Fixed fixedMinutes \<Rightarrow>
                (result\<lparr>minutes := fixedMinutes, confidence := ''high'',
                   detectedTypes := [\<lparr>d_pattern = pattern p,
                     valueText = Some (showInt fixedMinutes @ '' minutes (fixed)''),
                     d_estimate = None\<rparr>]\<rparr>,
                 priority p)
            | SkipTo target \<Rightarrow>
                (result\<lparr>skipTo := Some target, confidence := ''high'',
                   detectedTypes := [\<lparr>d_pattern = pattern p,
                     valueText = Some (''skip to '' @ target), d_estimate = None\<rparr>]\<rparr>,
                 priority p)
            | Scene estimate \<Rightarrow>
                if priority p \<ge> highestPriority
                then
                  (result\<lparr>detectedTypes := detectedTypes result @
                       [\<lparr>d_pattern = pattern p, valueText = None, d_estimate = Some estimate\<rparr>],
                     confidence :=
                       (if confidence result \<noteq> ''high'' then ''medium'' else confidence result)\<rparr>,
                   highestPriority)
                else acc))"

definition estimateSceneDuration :: "js_string \<Rightarrow> estimate_result" where
  "estimateSceneDuration responseText =
    (if responseText = []
     then \<lparr>minutes = 0, confidence = ''none'', detectedTypes = [], skipTo = None\<rparr>
     else
       (let result = fst (fold (applyPattern responseText) DURATION_PATTERNS
              (\<lparr>minutes = 0, confidence = ''low'', detectedTypes = [], skipTo = None\<rparr>, 0));
            result1 =
              (if confidence result \<noteq> ''high'' \<and> detectedTypes result \<noteq> [] \<and>
                  noSkipTo (skipTo result)
               then
                 (let sceneEstimates = filter hasEstimate (detectedTypes result) in
                  if sceneEstimates \<noteq> []
                  then result\<lparr>minutes :=
                    (let es = map (\<lambda>d. the (d_estimate d)) sceneEstimates
                     in fold max (tl es) (hd es))\<rparr>
                  else result)
               else result);
            result2 =
              (if minutes result1 = 0 \<and> noSkipTo (skipTo result1) \<and> confidence result1 = ''low''
               then result1\<lparr>minutes := 3\<rparr>
               else result1)
        in result2))"

text \<open>The notion of the specification that the estimator is compared with: the
  estimates of all scene rules of a table that match a text, in table order.\<close>

definition matchedSceneEstimates :: "js_string \<Rightarrow> duration_pattern list \<Rightarrow> int list" where
  "matchedSceneEstimates responseText ps =
    concat (map (\<lambda>p.
      case regex_match (pattern p) responseText of
        None \<Rightarrow> []
      | Some m \<Rightarrow> (case ptype p of Scene estimate \<Rightarrow> [estimate] | _ \<Rightarrow> [])) ps)"

text \<open>The entries that the loop pushes on \<open>detectedTypes\<close> for the scene rules of
  a table that match a text.\<close>

definition sceneEntries :: "js_string \<Rightarrow> duration_pattern list \<Rightarrow> detected_type list" where
  "sceneEntries responseText ps =
    concat (map (\<lambda>p.
      case regex_match (pattern p) responseText of
        None \<Rightarrow> []
      | Some m \<Rightarrow>
          (case ptype p of
             Scene estimate \<Rightarrow>
               [\<lparr>d_pattern = pattern p, valueText = None, d_estimate = Some estimate\<rparr>]
           | _ \<Rightarrow> [])) ps)"

text \<open>Only scene rules match a text: every pattern of the table that matches it has
  the type \<open>scene\<close>.\<close>

definition onlySceneRulesMatch :: "js_string \<Rightarrow> duration_pattern list \<Rightarrow> bool" where
  "onlySceneRulesMatch responseText ps =
    list_all (\<lambda>p.
      case regex_match (pattern p) responseText of
        None \<Rightarrow> True
      | Some m \<Rightarrow> (case ptype p of Scene estimate \<Rightarrow> True | _ \<Rightarrow> False)) ps"

section \<open>The celestial tracker\<close>

text \<open>The functions of the tracker read \<open>timeState.month\<close>, \<open>timeState.day\<close>,
  \<open>timeState.year\<close> and, with optional chaining, \<open>timeState.moons?.lunara\<close> and
  \<open>timeState.moons?.veil\<close>: the moons, and each moon, may be absent from their
  argument. \<open>tracker_view\<close> gives a state of the time engine, where both are present,
  in this form.\<close>

record moons_view =
  mv_lunara :: "moon option"
  mv_veil :: "moon option"

record tracker_state =
  ts_year :: int
  ts_month :: int
  ts_day :: int
  ts_moons :: "moons_view option"

definition tracker_view :: "time_state \<Rightarrow> tracker_state" where
  "tracker_view s =
    \<lparr>ts_year = year s, ts_month = month s, ts_day = day s,
     ts_moons = Some \<lparr>mv_lunara = Some (lunara (moons s)), mv_veil = Some (veil (moons s))\<rparr>\<rparr>"

subsection \<open>Celestial events\<close>

record effect =
  e_type :: string
  modifier :: int
  e_description :: string

text \<open>The \<open>date\<close> object that the conditions receive.\<close>

record date_view =
  d_month :: int
  d_day :: int

text \<open>A condition is a function of the two moons and the date. Reading a property of
  a moon that is \<open>undefined\<close> throws a \<open>TypeError\<close>; \<open>&&\<close> evaluates its right
  operand only when the left one is true.\<close>

definition get_field :: "'o option \<Rightarrow> ('o \<Rightarrow> 'a) \<Rightarrow> error + 'a" where
  "get_field obj f = (case obj of None \<Rightarrow> Inl TypeError | Some ob \<Rightarrow> Inr (f ob))"

definition js_and :: "error + bool \<Rightarrow> error + bool \<Rightarrow> error + bool" where
  "js_and a b = (case a of Inl e \<Rightarrow> Inl e | Inr x \<Rightarrow> if x then b else Inr False)"

record celestial_event =
  ce_name :: string
  ce_description :: string
  ce_condition :: "moon option \<Rightarrow> moon option \<Rightarrow> date_view \<Rightarrow> error + bool"
  ce_effects :: "effect list"
  ce_rarity :: string
  ce_icon :: js_string

text \<open>\<open>VEIL.cycle\<close>\<close>

definition VEIL_cycle :: int where
  "VEIL_cycle = 35"

text \<open>\<open>CELESTIAL_EVENTS\<close>, in the order of its keys, which is the order of
  \<open>Object.entries\<close>. The icons are given by their UTF-16 code units.\<close>

definition CELESTIAL_EVENTS :: "(string \<times> celestial_event) list" where
  "CELESTIAL_EVENTS =
    [(''convergence'',
      \<lparr>ce_name = ''Convergence Night'',
       ce_description = ''Both moons are full simultaneously'',
       ce_condition = (\<lambda>lunara veil date.
         js_and (get_field lunara (\<lambda>l. phase l = Some ''full''))
                (get_field veil (\<lambda>v. phase v = Some ''full''))),
       ce_effects =
         [\<lparr>e_type = ''magic'', modifier = 2, e_description = ''All magical effects doubled''\<rparr>,
          \<lparr>e_type = ''undead'', modifier = 50, e_description = ''Undead surge''\<rparr>,
          \<lparr>e_type = ''spirits'', modifier = 100, e_description = ''Spirits roam freely''\<rparr>],
       ce_rarity = ''very_rare'', ce_icon = [10024]\<rparr>),
     (''veils_eclipse'',
      \<lparr>ce_name = ''Veil's Eclipse'',
       ce_description = ''The Veil passes before Lunara'',
       ce_condition = (\<lambda>lunara veil date.
         js_and (get_field lunara (\<lambda>l. phase l = Some ''full''))
                (get_field veil (\<lambda>v. dayInCycle v = \<lfloor>real_of_int VEIL_cycle / 2\<rfloor>))),
       ce_effects =
         [\<lparr>e_type = ''shadow_magic'', modifier = 50, e_description = ''Shadow magic peaks''\<rparr>,
          \<lparr>e_type = ''undead'', modifier = 30, e_description = ''Undead empowered''\<rparr>,
          \<lparr>e_type = ''light_magic'', modifier = - 30, e_description = ''Light magic weakened''\<rparr>],
       ce_rarity = ''rare'', ce_icon = [55356, 57105]\<rparr>),
     (''void_night'',
      \<lparr>ce_name = ''Void Night'',
       ce_description = ''Both moons are new - darkest night'',
       ce_condition = (\<lambda>lunara veil date.
         js_and (get_field lunara (\<lambda>l. phase l = Some ''new''))
                (get_field veil (\<lambda>v. phase v = Some ''new''))),
       ce_effects =
         [\<lparr>e_type = ''darkness'', modifier = 3, e_description = ''Near total darkness''\<rparr>,
          \<lparr>e_type = ''aberrations'', modifier = 50, e_description = ''Aberrations stir''\<rparr>,
          \<lparr>e_type = ''divination'', modifier = - 50, e_description = ''Divination blocked''\<rparr>],
       ce_rarity = ''rare'', ce_icon = [11035]\<rparr>),
     (''silver_tide'',
      \<lparr>ce_name = ''Silver Tide'',
       ce_description = ''Lunara at perigee during full moon'',
       ce_condition = (\<lambda>lunara veil date.
         js_and (get_field lunara (\<lambda>l. phase l = Some ''full''))
                (get_field lunara (\<lambda>l. js_rem (dayInCycle l) 7 = 0))),
       ce_effects =
         [\<lparr>e_type = ''tides'', modifier = 4, e_description = ''Extreme tides''\<rparr>,
          \<lparr>e_type = ''water_magic'', modifier = 20, e_description = ''Water magic enhanced''\<rparr>,
          \<lparr>e_type = ''coastal'', modifier = - 20, e_description = ''Coastal travel dangerous''\<rparr>],
       ce_rarity = ''uncommon'', ce_icon = [55356, 57098]\<rparr>),
     (''starfall'',
      \<lparr>ce_name = ''Starfall'',
       ce_description = ''Meteor shower visible'',
       ce_condition = (\<lambda>lunara veil date.
         Inr (d_month date = 8 \<and> d_day date \<ge> 10 \<and> d_day date \<le> 15)),
       ce_effects =
         [\<lparr>e_type = ''star_metal'', modifier = 100, e_description = ''Star metal may fall''\<rparr>,
          \<lparr>e_type = ''wishes'', modifier = 1, e_description = ''Wishes more potent''\<rparr>],
       ce_rarity = ''annual'', ce_icon = [11088]\<rparr>)]"

text \<open>An entry of the result of \<open>checkCelestialEvents\<close>.\<close>

record active_event =
  ae_id :: string
  ae_name :: string
  ae_description :: string
  ae_effects :: "effect list"
  ae_rarity :: string
  ae_icon :: js_string

text \<open>The object that \<open>checkCelestialEvents\<close> pushes for a rule.\<close>

definition activeEvent :: "string \<Rightarrow> celestial_event \<Rightarrow> active_event" where
  "activeEvent key event =
    \<lparr>ae_id = key, ae_name = ce_name event, ae_description = ce_description event,
     ae_effects = ce_effects event, ae_rarity = ce_rarity event, ae_icon = ce_icon event\<rparr>"

text \<open>The body of the loop over the entries of the table, on the list
  \<open>activeEvents\<close>: the \<open>try\<close> block pushes an entry when the condition is true, and
  the empty \<open>catch\<close> block swallows what the condition throws.\<close>

definition checkEvent ::
  "moon option \<Rightarrow> moon option \<Rightarrow> date_view \<Rightarrow> string \<times> celestial_event \<Rightarrow>
   active_event list \<Rightarrow> active_event list" where
  "checkEvent lunaraMoon veilMoon date entry activeEvents =
    (let key = fst entry; event = snd entry in
     case ce_condition event lunaraMoon veilMoon date of
       Inl e \<Rightarrow> activeEvents
     | Inr holds \<Rightarrow> if holds then activeEvents @ [activeEvent key event] else activeEvents)"

text \<open>\<open>checkCelestialEvents\<close> over a table of rules; the function of the source is
  the instance for \<open>CELESTIAL_EVENTS\<close>. \<open>lunaraMoon\<close> and \<open>veilMoon\<close> are its
  constants \<open>lunara\<close> and \<open>veil\<close>. Nothing outside the \<open>try\<close> block can throw, so
  the function returns a list on every argument.\<close>

definition checkCelestialEventsIn ::
  "(string \<times> celestial_event) list \<Rightarrow> tracker_state \<Rightarrow> active_event list" where
  "checkCelestialEventsIn table timeState =
    (let lunaraMoon = (case ts_moons timeState of None \<Rightarrow> None | Some ms \<Rightarrow> mv_lunara ms);
         veilMoon = (case ts_moons timeState of None \<Rightarrow> None | Some ms \<Rightarrow> mv_veil ms);
         date = \<lparr>d_month = ts_month timeState, d_day = ts_day timeState\<rparr>
     in if lunaraMoon = None \<or> veilMoon = None then []
        else fold (checkEvent lunaraMoon veilMoon date) table [])"

definition checkCelestialEvents :: "tracker_state \<Rightarrow> active_event list" where
  "checkCelestialEvents timeState = checkCelestialEventsIn CELESTIAL_EVENTS timeState"

subsection \<open>Festivals\<close>

record festival =
  f_name :: string
  f_month :: int
  f_day :: int
  f_duration :: int
  f_description :: string
  f_effects :: "string list"
  f_traditions :: "string list"

definition FESTIVALS :: "festival list" where
  "FESTIVALS =
    [\<lparr>f_name = ''Frostmeet'', f_month = 1, f_day = 1, f_duration = 3,
      f_description = ''New Year celebration, honoring the dead of winter'',
      f_effects = [''Shops closed first day'', ''Feasting and gift-giving'', ''Bonfires common''],
      f_traditions = [''Telling tales of ancestors'', ''Burning effigies of the past year'']\<rparr>,
     \<lparr>f_name = ''Thaw Festival'', f_month = 3, f_day = 15, f_duration = 1,
      f_description = ''Celebration of spring arrival'',
      f_effects = [''Markets busy'', ''Flower decorations everywhere''],
      f_traditions = [''Planting ceremonies'', ''Spring cleaning rituals'']\<rparr>,
     \<lparr>f_name = ''Solstice of Light'', f_month = 6, f_day = 21, f_duration = 1,
      f_description = ''Longest day, celebration of Solarus'',
      f_effects = [''Temples of Solarus crowded'', ''Healing magic enhanced''],
      f_traditions = [''Dawn vigils'', ''Blessing of crops'']\<rparr>,
     \<lparr>f_name = ''Midsummer Eve'', f_month = 7, f_day = 15, f_duration = 2,
      f_description = ''Festival of fey and magic'',
      f_effects = [''Fey crossings more common'', ''Wild magic surges possible''],
      f_traditions = [''Dancing around bonfires'', ''Leaving offerings for fey'']\<rparr>,
     \<lparr>f_name = ''Harvest Moon Festival'', f_month = 8, f_day = 20, f_duration = 3,
      f_description = ''Celebration of the harvest'',
      f_effects = [''Food prices drop'', ''Alcohol flows freely'', ''Guards more lenient''],
      f_traditions = [''Harvest competitions'', ''Feast of plenty'']\<rparr>,
     \<lparr>f_name = ''Veilnight'', f_month = 10, f_day = 31, f_duration = 1,
      f_description = ''Night when the veil between worlds is thinnest'',
      f_effects = [''Undead more active'', ''Spirits can communicate'', ''Necromancy enhanced''],
      f_traditions = [''Wearing masks'', ''Leaving food for spirits'', ''Staying indoors'']\<rparr>,
     \<lparr>f_name = ''Darkest Eve'', f_month = 12, f_day = 21, f_duration = 1,
      f_description = ''Shortest day, honoring Nyx'',
      f_effects = [''Temples of Nyx crowded'', ''Shadow magic enhanced''],
      f_traditions = [''Candlelight vigils'', ''Meditation on endings'']\<rparr>,
     \<lparr>f_name = ''Year's End'', f_month = 12, f_day = 29, f_duration = 2,
      f_description = ''Final days of the year'',
      f_effects = [''Reflection and preparation'', ''Debts traditionally settled''],
      f_traditions = [''Burning regrets'', ''Making resolutions'']\<rparr>]"

text \<open>\<open>getDaysUntilDate(timeState, targetMonth, targetDay, nextYear)\<close>. After four
  declarations that cannot throw, the function evaluates \<open>const { getMonthLength } =
  require('./time-engine.js')\<close>, before any of its branches. The file is an ES module
  (it starts with an \<open>import\<close>), where the identifier \<open>require\<close> has no binding:
  the statement throws a \<open>ReferenceError\<close>, on every argument, and no later statement
  of the function is reached.\<close>

definition getDaysUntilDate :: "tracker_state \<Rightarrow> int \<Rightarrow> int \<Rightarrow> bool \<Rightarrow> error + int" where
  "getDaysUntilDate timeState targetMonth targetDay nextYear = Inl ReferenceError"

text \<open>An entry of the result of \<open>getUpcomingFestivals\<close>: the festival's own fields
  and three more.\<close>

record upcoming_festival = festival +
  daysUntil :: int
  isToday :: bool
  isOngoing :: bool

definition upcomingEntry :: "festival \<Rightarrow> int \<Rightarrow> upcoming_festival" where
  "upcomingEntry f d =
    \<lparr>f_name = f_name f, f_month = f_month f, f_day = f_day f, f_duration = f_duration f,
     f_description = f_description f, f_effects = f_effects f, f_traditions = f_traditions f,
     daysUntil = d, isToday = (d = 0), isOngoing = (d < 0 \<and> d \<ge> - f_duration f)\<rparr>"

text \<open>The three-way choice at the head of the loop body of \<open>getUpcomingFestivals\<close>:
  the value of \<open>daysUntil\<close> for one festival. Only the first branch does without
  \<open>getDaysUntilDate\<close>.\<close>

definition festivalDaysUntil :: "tracker_state \<Rightarrow> festival \<Rightarrow> error + int" where
  "festivalDaysUntil timeState f =
    (let currentMonth = ts_month timeState;
         currentDay = ts_day timeState
     in if f_month f = currentMonth then Inr (f_day f - currentDay)
        else if f_month f > currentMonth
        then getDaysUntilDate timeState (f_month f) (f_day f) False
        else getDaysUntilDate timeState (f_month f) (f_day f) True)"

text \<open>The loop over the festivals, on the list \<open>upcoming\<close>; an error thrown in the
  body ends the loop and the function.\<close>

fun scanFestivals ::
  "tracker_state \<Rightarrow> int \<Rightarrow> festival list \<Rightarrow> upcoming_festival list \<Rightarrow>
   error + upcoming_festival list" where
  "scanFestivals timeState daysAhead [] upcoming = Inr upcoming"
| "scanFestivals timeState daysAhead (f # fs) upcoming =
    (case festivalDaysUntil timeState f of
       Inl e \<Rightarrow> Inl e
     | Inr d \<Rightarrow>
         scanFestivals timeState daysAhead fs
           (if d \<ge> 0 \<and> d \<le> daysAhead then upcoming @ [upcomingEntry f d] else upcoming))"

text \<open>\<open>getUpcomingFestivals(timeState, daysAhead)\<close>; the sort with the comparator
  \<open>a.daysUntil - b.daysUntil\<close> is a stable sort on \<open>daysUntil\<close>.\<close>

definition getUpcomingFestivals :: "tracker_state \<Rightarrow> int \<Rightarrow> error + upcoming_festival list" where
  "getUpcomingFestivals timeState daysAhead =
    (case scanFestivals timeState daysAhead FESTIVALS [] of
       Inl e \<Rightarrow> Inl e
     | Inr upcoming \<Rightarrow> Inr (sort_key daysUntil upcoming))"

section \<open>Properties of the calendar clock\<close>

declare minuteOverflow.simps [simp del] hourOverflow.simps [simp del] dayOverflow.simps [simp del]

subsection \<open>Month lengths\<close>

lemma js_index_Some_mem: "js_index xs i = Some x \<Longrightarrow> x \<in> set xs"
  by (auto simp: js_index_def split: if_splits)

lemma MONTHS_days_ge_28: "x \<in> set MONTHS \<Longrightarrow> 28 \<le> mdays x"
  by (auto simp: MONTHS_def)

lemma getMonthLength_ge_28: "28 \<le> getMonthLength m y"
  unfolding getMonthLength_def
  by (auto split: option.splits dest!: js_index_Some_mem MONTHS_days_ge_28)


subsection \<open>The overflow loops in closed form\<close>

lemma minuteOverflow_closed:
  "0 \<le> minute s \<Longrightarrow>
   minuteOverflow s = s\<lparr>minute := minute s mod 60, hour := hour s + minute s div 60\<rparr>"
proof (induction s rule: minuteOverflow.induct)
  case (1 state)
  show ?case
  proof (cases "minute state \<ge> 60")
    case True
    have a: "(minute state - 60) mod 60 = minute state mod 60"
      by (metis minus_mod_self2)
    have b: "hour state + 1 + (minute state - 60) div 60 = hour state + minute state div 60"
      by simp
    have "minuteOverflow state =
        minuteOverflow (state\<lparr>minute := minute state - 60, hour := hour state + 1\<rparr>)"
      using True by (subst minuteOverflow.simps) simp
    also have "\<dots> = state\<lparr>minute := minute state - 60, hour := hour state + 1\<rparr>
        \<lparr>minute := (minute state - 60) mod 60,
         hour := hour state + 1 + (minute state - 60) div 60\<rparr>"
      using 1(1)[OF True] True by simp
    also have "\<dots> =
        state\<lparr>minute := minute state mod 60, hour := hour state + minute state div 60\<rparr>"
      by (simp only: a b) simp
    finally show ?thesis .
  next
    case False
    with 1(2) show ?thesis by (subst minuteOverflow.simps) simp
  qed
qed

lemma hourOverflow_closed:
  "0 \<le> hour s \<Longrightarrow>
   hourOverflow (s, b) =
     (s\<lparr>hour := hour s mod 24, day := day s + hour s div 24\<rparr>, b \<or> hour s \<ge> 24)"
proof (induction "(s, b)" arbitrary: s b rule: hourOverflow.induct)
  case (1 state dayAdvanced)
  show ?case
  proof (cases "hour state \<ge> 24")
    case True
    have a: "(hour state - 24) mod 24 = hour state mod 24"
      by (metis minus_mod_self2)
    have b: "day state + 1 + (hour state - 24) div 24 = day state + hour state div 24"
      by simp
    have "hourOverflow (state, dayAdvanced) =
        hourOverflow (state\<lparr>hour := hour state - 24, day := day state + 1\<rparr>, True)"
      using True by (subst hourOverflow.simps) simp
    also have "\<dots> = (state\<lparr>hour := hour state - 24, day := day state + 1\<rparr>
        \<lparr>hour := (hour state - 24) mod 24,
         day := day state + 1 + (hour state - 24) div 24\<rparr>, True)"
      using 1(1)[OF True] True by simp
    also have "\<dots> =
        (state\<lparr>hour := hour state mod 24, day := day state + hour state div 24\<rparr>,
         dayAdvanced \<or> hour state \<ge> 24)"
      using True by (simp only: a b) simp
    finally show ?thesis .
  next
    case False
    with 1(2) show ?thesis by (subst hourOverflow.simps) simp
  qed
qed


subsection \<open>Fields that the recomputations leave alone\<close>

lemma updateDerivedValues_fields [simp]:
  "year (updateDerivedValues s) = year s"
  "month (updateDerivedValues s) = month s"
  "day (updateDerivedValues s) = day s"
  "hour (updateDerivedValues s) = hour s"
  "minute (updateDerivedValues s) = minute s"
  "moons (updateDerivedValues s) = moons s"
  by (simp_all add: updateDerivedValues_def updateSunTimes_def Let_def)

lemma updateMoonPhases_fields [simp]:
  "year (updateMoonPhases s) = year s"
  "month (updateMoonPhases s) = month s"
  "day (updateMoonPhases s) = day s"
  "hour (updateMoonPhases s) = hour s"
  "minute (updateMoonPhases s) = minute s"
  by (simp_all add: updateMoonPhases_def updateCelestialEffects_def Let_def)


subsection \<open>What one call of \<open>advanceTime\<close> computes\<close>

lemma advanceTime_cascade:
  assumes pos: "0 < mins" and mi: "0 \<le> minute s" and ho: "0 \<le> hour s"
  shows "advanceTime mins now (Some s) =
      (let H = hour s + (minute s + mins) div 60;
           s2 = s\<lparr>minute := (minute s + mins) mod 60, hour := H mod 24,
                  day := day s + H div 24\<rparr>;
           s3 = fst (dayOverflow (month s) (year s) (s2, False, False));
           s4 = updateDerivedValues s3;
           s5 = (if H \<ge> 24 then updateMoonPhases s4 else s4);
           s6 = s5\<lparr>lastUpdate := now\<rparr>
       in (Inr (Some s6), Some s6))"
proof -
  define H where "H = hour s + (minute s + mins) div 60"
  define s1 where "s1 = s\<lparr>minute := (minute s + mins) mod 60, hour := H\<rparr>"
  define s2 where "s2 = s\<lparr>minute := (minute s + mins) mod 60, hour := H mod 24,
                  day := day s + H div 24\<rparr>"
  have e1: "minuteOverflow (s\<lparr>minute := minute s + mins\<rparr>) = s1"
    using pos mi by (simp add: minuteOverflow_closed s1_def H_def)
  have "0 \<le> (minute s + mins) div 60" using pos mi by simp
  then have "0 \<le> hour s1" using ho by (simp add: s1_def H_def)
  then have e2: "hourOverflow (s1, False) = (s2, H \<ge> 24)"
    by (simp add: hourOverflow_closed) (simp add: s1_def s2_def)
  have my: "month s2 = month s" "year s2 = year s" by (simp_all add: s2_def)
  obtain s3 ma ya where e3: "dayOverflow (month s) (year s) (s2, False, False) = (s3, ma, ya)"
    by (metis prod_cases3)
  have "advanceTime mins now (Some s) =
      (let s4 = updateDerivedValues s3;
           s5 = (if H \<ge> 24 then updateMoonPhases s4 else s4);
           s6 = s5\<lparr>lastUpdate := now\<rparr>
       in (Inr (Some s6), Some s6))"
    using pos by (simp add: advanceTime_def e1 e2 my e3 Let_def)
  then show ?thesis
    using e3 by (simp add: Let_def H_def s2_def)
qed

subsection \<open>Multi-month jumps\<close>

lemma getMonthLength_2847:
  "getMonthLength 7 2847 = 31" "getMonthLength 9 2847 = 30" "getMonthLength 10 2847 = 30"
  by (simp_all add: getMonthLength_def js_index_def MONTHS_def js_rem_def)

lemma daysBeforeMonth_2847:
  "daysBeforeMonth 7 2847 = 180" "daysBeforeMonth 10 2847 = 272"
  by (simp_all add: daysBeforeMonth_def getMonthLength_def js_index_def MONTHS_def js_rem_def
      upto.simps)

lemma wellFormed_default: "wellFormed (createDefaultTimeState now)"
  by (simp add: wellFormed_def dayInRange_def createDefaultTimeState_def getMonthLength_2847)

lemma default_fields:
  "year (createDefaultTimeState now) = 2847" "month (createDefaultTimeState now) = 7"
  "day (createDefaultTimeState now) = 14" "hour (createDefaultTimeState now) = 18"
  "minute (createDefaultTimeState now) = 0"
  by (simp_all add: createDefaultTimeState_def)

text \<open>
  \<^bold>\<open>Claim C1\<close> (the absolute minute count after \<open>advanceTime(m)\<close> is the count before
  plus \<open>m\<close>). The code does not do this on a jump that passes more than one month end:
  the day loop subtracts the length of the month the call started in at every
  iteration. From the default state (14 Goldpeak 2847, 18:00) an advance of 115200
  minutes (80 days) ends on day 1 of month 10, one day (1440 minutes) short: months 7
  and 8 have 31 days, month 9 has 30, and the loop takes 31 off three times.
\<close>

theorem advanceTime_80_days_loses_a_day:
  "\<exists>s'. advanceTime 115200 now (Some (createDefaultTimeState now)) = (Inr (Some s'), Some s') \<and>
      year s' = 2847 \<and> month s' = 10 \<and> day s' = 1 \<and> hour s' = 18 \<and> minute s' = 0 \<and>
      absoluteMinutes s' = absoluteMinutes (createDefaultTimeState now) + 115200 - 1440 \<and>
      absoluteMinutes s' \<noteq> absoluteMinutes (createDefaultTimeState now) + 115200"
proof -
  let ?d = "createDefaultTimeState now"
  have c: "advanceTime 115200 now (Some ?d) =
      (let H = hour ?d + (minute ?d + 115200) div 60;
           s2 = ?d\<lparr>minute := (minute ?d + 115200) mod 60, hour := H mod 24,
                  day := day ?d + H div 24\<rparr>;
           s3 = fst (dayOverflow (month ?d) (year ?d) (s2, False, False));
           s4 = updateDerivedValues s3;
           s5 = (if H \<ge> 24 then updateMoonPhases s4 else s4);
           s6 = s5\<lparr>lastUpdate := now\<rparr>
       in (Inr (Some s6), Some s6))"
    by (rule advanceTime_cascade) (simp_all add: default_fields)
  have e: "dayOverflow 7 2847 (?d\<lparr>minute := 0, hour := 18, day := 94\<rparr>, False, False) =
      (?d\<lparr>minute := 0, hour := 18, day := 1, month := 10\<rparr>, True, False)"
    by (simp add: dayOverflow.simps getMonthLength_2847 default_fields)
  show ?thesis
    by (simp add: c default_fields e Let_def absoluteMinutes_def totalDays_def
        daysBeforeMonth_2847)
qed

text \<open>
  \<^bold>\<open>Claim C2\<close> (the day stays within \<open>[1, monthLength(month, year)]\<close> after
  \<open>advanceTime\<close> and after \<open>setTime\<close>). \<open>advanceTime\<close> breaks the invariant for the
  same reason as in C1: from the default state, which is well formed, an advance of
  113760 minutes (79 days) ends on day 31 of month 9, a month of 30 days.
\<close>

theorem advanceTime_79_days_leaves_month:
  "wellFormed (createDefaultTimeState now) \<and>
   (\<exists>s'. advanceTime 113760 now (Some (createDefaultTimeState now)) = (Inr (Some s'), Some s') \<and>
      year s' = 2847 \<and> month s' = 9 \<and> day s' = 31 \<and>
      getMonthLength (month s') (year s') = 30 \<and> \<not> dayInRange s')"
proof -
  let ?d = "createDefaultTimeState now"
  have c: "advanceTime 113760 now (Some ?d) =
      (let H = hour ?d + (minute ?d + 113760) div 60;
           s2 = ?d\<lparr>minute := (minute ?d + 113760) mod 60, hour := H mod 24,
                  day := day ?d + H div 24\<rparr>;
           s3 = fst (dayOverflow (month ?d) (year ?d) (s2, False, False));
           s4 = updateDerivedValues s3;
           s5 = (if H \<ge> 24 then updateMoonPhases s4 else s4);
           s6 = s5\<lparr>lastUpdate := now\<rparr>
       in (Inr (Some s6), Some s6))"
    by (rule advanceTime_cascade) (simp_all add: default_fields)
  have e: "dayOverflow 7 2847 (?d\<lparr>minute := 0, hour := 18, day := 93\<rparr>, False, False) =
      (?d\<lparr>minute := 0, hour := 18, day := 31, month := 9\<rparr>, True, False)"
    by (simp add: dayOverflow.simps getMonthLength_2847 default_fields)
  show ?thesis
    by (simp add: wellFormed_default c default_fields e Let_def dayInRange_def
        getMonthLength_2847)
qed

text \<open>\<open>setTime\<close> clamps every field, whatever whole numbers the partial update and
  the stored state hold. (A field that is \<open>NaN\<close> is outside the model: the clamps
  return it unchanged.)\<close>

lemma clamp_range: "(lo::int) \<le> hi \<Longrightarrow> lo \<le> max lo (min hi x) \<and> max lo (min hi x) \<le> hi"
  by auto

lemma setTime_wellFormed:
  "\<exists>s'. setTime newTime now store = (Inr s', Some s') \<and> wellFormed s'"
proof -
  have ml: "1 \<le> getMonthLength m y" for m y
    using getMonthLength_ge_28 [of m y] by simp
  show ?thesis
    by (simp add: setTime_def Let_def wellFormed_def dayInRange_def clamp_range ml
        del: max.bounded_iff min.bounded_iff)
qed

text \<open>
  \<^bold>\<open>Claim C3\<close>, as amended: for every negative \<open>minutes\<close> argument, \<open>advanceTime\<close> signals no
  error; its promise resolves with the stored time state (\<open>null\<close> when nothing is
  stored), and the store, hence every state field, is unchanged.
\<close>

theorem advanceTime_negative_returns_store:
  "mins < 0 \<Longrightarrow> advanceTime mins now store = (Inr store, store)"
  by (simp add: advanceTime_def)

theorem advanceTime_negative_returns_store_witness:
  "advanceTime (- 1) 7 None = (Inr None, None)"
  using advanceTime_negative_returns_store [of "- 1" 7 None] by simp

text \<open>The claim as stated (a negative argument is rejected with an error instead of a
  normal return) fails at \<open>minutes = -5\<close> on the default state: the call returns that
  state.\<close>

theorem advanceTime_minus_5_returns_normally:
  "advanceTime (- 5) 0 (Some (createDefaultTimeState 0)) =
     (Inr (Some (createDefaultTimeState 0)), Some (createDefaultTimeState 0))"
  by (simp add: advanceTime_def)



section \<open>Properties of the skip-to computation\<close>

text \<open>
  \<^bold>\<open>Claim C7\<close>: for a time of day with hour in \<open>[0, 23]\<close> and minute in \<open>[0, 59]\<close>
  and each of the five symbolic targets, \<open>calculateSkipToMinutes\<close> is the hour difference
  \<open>targetHour - currentHour\<close>, plus 24 when that is not positive, in minutes, less the
  current minute; it is strictly positive, at most a day, and lands on the target hour
  exactly. From 20:00 to \<open>morning\<close> it is 660.
\<close>

theorem calculateSkipToMinutes_forward:
  assumes "0 \<le> hour s" "hour s \<le> 23" "0 \<le> minute s" "minute s \<le> 59"
    and "target \<in> {''morning'', ''noon'', ''evening'', ''night'', ''midnight''}"
  shows "\<exists>targetHour. targetHourOf target = Some targetHour \<and>
      calculateSkipToMinutes s target =
        (if targetHour - hour s \<le> 0 then targetHour - hour s + 24 else targetHour - hour s) * 60
          - minute s \<and>
      0 < calculateSkipToMinutes s target \<and>
      calculateSkipToMinutes s target \<le> 1440 \<and>
      (hour s * 60 + minute s + calculateSkipToMinutes s target) mod 1440 = targetHour * 60 \<and>
      calculateSkipToMinutes (s\<lparr>hour := 20, minute := 0\<rparr>) ''morning'' = 660"
proof -
  from assms(5) obtain th where th: "targetHourOf target = Some th" "0 \<le> th" "th \<le> 21"
    by (auto simp: targetHourOf_def)
  have v: "calculateSkipToMinutes s target =
      (if th - hour s \<le> 0 then th - hour s + 24 else th - hour s) * 60 - minute s"
    by (simp add: calculateSkipToMinutes_def th Let_def)
  have pos: "0 < calculateSkipToMinutes s target" and le: "calculateSkipToMinutes s target \<le> 1440"
    using assms(1-4) th(2,3) unfolding v by (auto split: if_splits)
  have land: "(hour s * 60 + minute s + calculateSkipToMinutes s target) mod 1440 = th * 60"
  proof (cases "th - hour s \<le> 0")
    case True
    then have "hour s * 60 + minute s + calculateSkipToMinutes s target = th * 60 + 1440"
      unfolding v by simp
    then show ?thesis using th(2,3) by simp
  next
    case False
    then have "hour s * 60 + minute s + calculateSkipToMinutes s target = th * 60"
      unfolding v by simp
    then show ?thesis using th(2,3) by simp
  qed
  have ex: "calculateSkipToMinutes (s\<lparr>hour := 20, minute := 0\<rparr>) ''morning'' = 660"
    by (simp add: calculateSkipToMinutes_def targetHourOf_def)
  show ?thesis using th(1) v pos le land ex by simp
qed

theorem calculateSkipToMinutes_forward_witness:
  "calculateSkipToMinutes (createDefaultTimeState 0) ''evening'' = 1440 \<and>
   calculateSkipToMinutes ((createDefaultTimeState 0)\<lparr>hour := 20, minute := 0\<rparr>) ''morning'' = 660"
  using calculateSkipToMinutes_forward [of "createDefaultTimeState 0" "''evening''"]
  by (simp add: createDefaultTimeState_def targetHourOf_def)

section \<open>Properties of the moon cycle\<close>
















section \<open>Properties of the duration estimator\<close>

lemmas pattern_defs = DURATION_PATTERNS_def js_str_def seqs_def lit_def opt_def plus_re_def
  ws_def later_pass_passed_def later_pass_def a_an_one_def your_their_def canonicalize_def
  isDigit_def isSpace_def

lemmas estimate_defs = estimateSceneDuration_def applyPattern_def parseInt_def match_group_def
  noSkipTo_def hasEstimate_def Let_def

lemma applyPattern_no_match:
  "regex_match (pattern p) t = None \<Longrightarrow> applyPattern t p acc = acc"
  by (simp add: applyPattern_def)

lemma fold_applyPattern_no_match:
  "\<forall>p \<in> set ps. regex_match (pattern p) t = None \<Longrightarrow> fold (applyPattern t) ps acc = acc"
  by (induction ps arbitrary: acc) (simp_all add: applyPattern_no_match)

lemma applyPattern_confidence:
  "confidence (fst acc) \<in> {''low'', ''medium'', ''high''} \<Longrightarrow>
   confidence (fst (applyPattern t p acc)) \<in> {''low'', ''medium'', ''high''}"
  by (auto simp: applyPattern_def Let_def split: option.splits pattern_type.splits)

lemma fold_applyPattern_confidence:
  "confidence (fst acc) \<in> {''low'', ''medium'', ''high''} \<Longrightarrow>
   confidence (fst (fold (applyPattern t) ps acc)) \<in> {''low'', ''medium'', ''high''}"
proof (induction ps arbitrary: acc)
  case Nil
  then show ?case by simp
next
  case (Cons p ps)
  from Cons.prems
  have "confidence (fst (applyPattern t p acc)) \<in> {''low'', ''medium'', ''high''}"
    by (rule applyPattern_confidence)
  from Cons.IH [OF this] show ?case by simp
qed

lemma estimate_no_match:
  assumes "t \<noteq> []" "\<forall>p \<in> set DURATION_PATTERNS. regex_match (pattern p) t = None"
  shows "estimateSceneDuration t =
    \<lparr>minutes = 3, confidence = ''low'', detectedTypes = [], skipTo = None\<rparr>"
  using assms(1) fold_applyPattern_no_match [OF assms(2)]
  by (simp add: estimateSceneDuration_def Let_def noSkipTo_def)

lemma estimate_confidence:
  assumes "t \<noteq> []"
  shows "confidence (estimateSceneDuration t) \<in> {''low'', ''medium'', ''high''}"
proof -
  define r where "r = fst (fold (applyPattern t) DURATION_PATTERNS
      (\<lparr>minutes = 0, confidence = ''low'', detectedTypes = [], skipTo = None\<rparr>, 0))"
  have c: "confidence r \<in> {''low'', ''medium'', ''high''}"
    unfolding r_def by (rule fold_applyPattern_confidence) simp
  have "confidence (estimateSceneDuration t) = confidence r"
    using assms by (simp add: estimateSceneDuration_def Let_def r_def [symmetric])
  with c show ?thesis by simp
qed

subsection \<open>When only scene rules match\<close>

lemma applyPattern_scene_only:
  assumes "onlySceneRulesMatch t [p]" "0 \<le> priority p" "confidence r \<noteq> ''high''"
  shows "applyPattern t p (r, 0) =
    (r\<lparr>detectedTypes := detectedTypes r @ sceneEntries t [p],
       confidence := (if sceneEntries t [p] = [] then confidence r else ''medium'')\<rparr>, 0)"
  using assms
  by (cases "regex_match (pattern p) t"; cases "ptype p")
     (simp_all add: applyPattern_def onlySceneRulesMatch_def sceneEntries_def Let_def)

lemma fold_scene_only:
  assumes "onlySceneRulesMatch t ps" "\<forall>p \<in> set ps. 0 \<le> priority p" "confidence r \<noteq> ''high''"
  shows "fold (applyPattern t) ps (r, 0) =
    (r\<lparr>detectedTypes := detectedTypes r @ sceneEntries t ps,
       confidence := (if sceneEntries t ps = [] then confidence r else ''medium'')\<rparr>, 0)"
  using assms
proof (induction ps arbitrary: r)
  case Nil
  then show ?case by (simp add: sceneEntries_def)
next
  case (Cons p ps)
  let ?r1 = "r\<lparr>detectedTypes := detectedTypes r @ sceneEntries t [p],
       confidence := (if sceneEntries t [p] = [] then confidence r else ''medium'')\<rparr>"
  from Cons.prems have one: "onlySceneRulesMatch t [p]" and rest: "onlySceneRulesMatch t ps"
    by (simp_all add: onlySceneRulesMatch_def)
  from Cons.prems have pr: "0 \<le> priority p" "\<forall>p \<in> set ps. 0 \<le> priority p" by simp_all
  have step: "applyPattern t p (r, 0) = (?r1, 0)"
    by (rule applyPattern_scene_only [OF one pr(1) Cons.prems(3)])
  have c1: "confidence ?r1 \<noteq> ''high''" using Cons.prems(3) by simp
  have app: "sceneEntries t (p # ps) = sceneEntries t [p] @ sceneEntries t ps"
    by (simp add: sceneEntries_def)
  have "fold (applyPattern t) (p # ps) (r, 0) = fold (applyPattern t) ps (?r1, 0)"
    by (simp add: step)
  also have "\<dots> = (?r1\<lparr>detectedTypes := detectedTypes ?r1 @ sceneEntries t ps,
       confidence := (if sceneEntries t ps = [] then confidence ?r1 else ''medium'')\<rparr>, 0)"
    by (rule Cons.IH [OF rest pr(2) c1])
  also have "\<dots> = (r\<lparr>detectedTypes := detectedTypes r @ sceneEntries t (p # ps),
       confidence := (if sceneEntries t (p # ps) = [] then confidence r else ''medium'')\<rparr>, 0)"
    by (simp add: app)
  finally show ?case .
qed

lemma fold_max_Max: "es \<noteq> [] \<Longrightarrow> fold max (tl es) (hd es) = Max (set es)"
proof -
  assume "es \<noteq> []"
  then obtain a list where es: "es = a # list" by (cases es) auto
  have "fold max list a = Max (set (a # list))"
    by (rule Max.set_eq_fold [symmetric])
  then show ?thesis unfolding es by (simp only: list.sel)
qed

lemma sceneEntries_estimates:
  assumes "\<forall>p \<in> set ps. \<forall>e. ptype p = Scene e \<longrightarrow> e \<noteq> 0"
  shows "filter hasEstimate (sceneEntries t ps) = sceneEntries t ps"
    and "map (\<lambda>d. the (d_estimate d)) (sceneEntries t ps) = matchedSceneEstimates t ps"
  using assms
proof (induction ps)
  case Nil
  { case 1 show ?case by (simp add: sceneEntries_def) }
  { case 2 show ?case by (simp add: sceneEntries_def matchedSceneEstimates_def) }
next
  case (Cons p ps)
  { case 1
    then show ?case
      using Cons.IH(1)
      by (cases "regex_match (pattern p) t"; cases "ptype p")
         (auto simp: sceneEntries_def hasEstimate_def) }
  { case 2
    then show ?case
      using Cons.IH(2)
      by (cases "regex_match (pattern p) t"; cases "ptype p")
         (auto simp: sceneEntries_def matchedSceneEstimates_def) }
qed

lemma DURATION_PATTERNS_priority: "\<forall>p \<in> set DURATION_PATTERNS. 0 \<le> priority p"
  by (simp add: DURATION_PATTERNS_def)

lemma DURATION_PATTERNS_estimates:
  "\<forall>p \<in> set DURATION_PATTERNS. \<forall>e. ptype p = Scene e \<longrightarrow> e \<noteq> 0"
  by (simp add: DURATION_PATTERNS_def)

lemma estimate_scene_only:
  assumes ne: "t \<noteq> []" and only: "onlySceneRulesMatch t DURATION_PATTERNS"
    and some: "matchedSceneEstimates t DURATION_PATTERNS \<noteq> []"
  shows "estimateSceneDuration t =
    \<lparr>minutes = Max (set (matchedSceneEstimates t DURATION_PATTERNS)), confidence = ''medium'',
     detectedTypes = sceneEntries t DURATION_PATTERNS, skipTo = None\<rparr>"
proof -
  let ?se = "sceneEntries t DURATION_PATTERNS"
  let ?r0 = "\<lparr>minutes = 0, confidence = ''low'', detectedTypes = [], skipTo = None\<rparr>"
  have f: "filter hasEstimate ?se = ?se"
    and m: "map (\<lambda>d. the (d_estimate d)) ?se = matchedSceneEstimates t DURATION_PATTERNS"
    using sceneEntries_estimates [OF DURATION_PATTERNS_estimates] by simp_all
  from m some have se: "?se \<noteq> []" by auto
  have "fold (applyPattern t) DURATION_PATTERNS (?r0, 0) =
      (?r0\<lparr>detectedTypes := detectedTypes ?r0 @ ?se,
         confidence := (if ?se = [] then confidence ?r0 else ''medium'')\<rparr>, 0)"
    by (rule fold_scene_only [OF only DURATION_PATTERNS_priority]) simp
  then have r: "fst (fold (applyPattern t) DURATION_PATTERNS (?r0, 0)) =
      \<lparr>minutes = 0, confidence = ''medium'', detectedTypes = ?se, skipTo = None\<rparr>"
    using se by simp
  show ?thesis
    using ne se some
    by (simp add: estimateSceneDuration_def r Let_def noSkipTo_def f m fold_max_Max)
qed

lemma fight_talk_only_scene:
  "onlySceneRulesMatch (js_str ''you fight, then talk'') DURATION_PATTERNS"
  by (simp add: onlySceneRulesMatch_def pattern_defs)

lemma fight_talk_estimates:
  "matchedSceneEstimates (js_str ''you fight, then talk'') DURATION_PATTERNS = [5, 15]"
  by (simp add: matchedSceneEstimates_def pattern_defs)

lemma js_str_fight_talk_nonempty: "js_str ''you fight, then talk'' \<noteq> []"
  by (simp add: js_str_def)

subsection \<open>The three examples\<close>

lemma estimate_3_hours_later:
  "\<exists>ds. estimateSceneDuration (js_str ''3 hours later'') =
     \<lparr>minutes = 180, confidence = ''high'', detectedTypes = ds, skipTo = None\<rparr>"
  by (simp add: estimate_defs pattern_defs)

lemma estimate_long_conversation:
  "\<exists>ds. estimateSceneDuration (js_str ''they share a long conversation'') =
     \<lparr>minutes = 45, confidence = ''medium'', detectedTypes = ds, skipTo = None\<rparr> \<and>
     map d_estimate ds = [Some 45, Some 15]"
  by (simp add: estimate_defs pattern_defs)

lemma no_match_dots:
  "\<forall>p \<in> set DURATION_PATTERNS. regex_match (pattern p) (js_str ''...'') = None"
  by (simp add: pattern_defs)

lemma js_str_dots_nonempty: "js_str ''...'' \<noteq> []"
  by (simp add: js_str_def)

text \<open>
  \<^bold>\<open>Claim C5\<close>. For every non-empty text in which only scene rules match, and at
  least one does, the result is the maximum of the estimates of all the scene rules
  that match (not the first of them, and not their sum), at confidence \<open>medium\<close> and
  without a skip target.
  \<open>estimateSceneDuration("3 hours later")\<close> is 180 minutes at confidence \<open>high\<close>;
  \<open>estimateSceneDuration("they share a long conversation")\<close> matches the two scene
  rules with the estimates 45 and 15 and is their maximum, 45 minutes, at confidence
  \<open>medium\<close>; and \<open>estimateSceneDuration("...")\<close>, where no rule matches, is 3 minutes
  at confidence \<open>low\<close>.
\<close>

theorem estimateSceneDuration_examples:
  "(t \<noteq> [] \<and> onlySceneRulesMatch t DURATION_PATTERNS \<and>
      matchedSceneEstimates t DURATION_PATTERNS \<noteq> [] \<longrightarrow>
      minutes (estimateSceneDuration t) = Max (set (matchedSceneEstimates t DURATION_PATTERNS)) \<and>
      confidence (estimateSceneDuration t) = ''medium'' \<and>
      skipTo (estimateSceneDuration t) = None) \<and>
   (\<exists>ds. estimateSceneDuration (js_str ''3 hours later'') =
      \<lparr>minutes = 180, confidence = ''high'', detectedTypes = ds, skipTo = None\<rparr>) \<and>
   (\<exists>ds. estimateSceneDuration (js_str ''they share a long conversation'') =
      \<lparr>minutes = 45, confidence = ''medium'', detectedTypes = ds, skipTo = None\<rparr> \<and>
      map d_estimate ds = [Some 45, Some 15]) \<and>
   estimateSceneDuration (js_str ''...'') =
      \<lparr>minutes = 3, confidence = ''low'', detectedTypes = [], skipTo = None\<rparr>"
proof -
  have rule: "t \<noteq> [] \<and> onlySceneRulesMatch t DURATION_PATTERNS \<and>
      matchedSceneEstimates t DURATION_PATTERNS \<noteq> [] \<longrightarrow>
      minutes (estimateSceneDuration t) = Max (set (matchedSceneEstimates t DURATION_PATTERNS)) \<and>
      confidence (estimateSceneDuration t) = ''medium'' \<and>
      skipTo (estimateSceneDuration t) = None"
    using estimate_scene_only [of t] by simp
  show ?thesis
    by (intro conjI rule estimate_3_hours_later estimate_long_conversation
        estimate_no_match [OF js_str_dots_nonempty no_match_dots])
qed

text \<open>In \<open>"you fight, then talk"\<close> the scene rules with the estimates 5 and 15 match,
  in this order, and nothing else: the result is 15.\<close>

theorem estimateSceneDuration_examples_witness:
  "matchedSceneEstimates (js_str ''you fight, then talk'') DURATION_PATTERNS = [5, 15] \<and>
   minutes (estimateSceneDuration (js_str ''you fight, then talk'')) = 15 \<and>
   confidence (estimateSceneDuration (js_str ''you fight, then talk'')) = ''medium''"
proof -
  let ?t = "js_str ''you fight, then talk''"
  have h: "?t \<noteq> [] \<and> onlySceneRulesMatch ?t DURATION_PATTERNS \<and>
      matchedSceneEstimates ?t DURATION_PATTERNS \<noteq> []"
    by (simp add: js_str_fight_talk_nonempty fight_talk_only_scene fight_talk_estimates)
  from estimateSceneDuration_examples [of ?t, THEN conjunct1, THEN mp, OF h]
  show ?thesis
    by (simp add: fight_talk_estimates)
qed

text \<open>
  \<^bold>\<open>Claim C8\<close>, as amended: for every non-empty input string the confidence is one
  of \<open>low\<close>, \<open>medium\<close> and \<open>high\<close>, and a non-empty text in which no pattern
  matches gets the 3-minute default at confidence \<open>low\<close>; the empty string is
  answered by the guard at the head of the function with 0 minutes at confidence
  \<open>none\<close>. No input makes the function fail.
\<close>

theorem estimateSceneDuration_confidence:
  "(t \<noteq> [] \<longrightarrow> confidence (estimateSceneDuration t) \<in> {''low'', ''medium'', ''high''}) \<and>
   (t \<noteq> [] \<and> (\<forall>p \<in> set DURATION_PATTERNS. regex_match (pattern p) t = None) \<longrightarrow>
      estimateSceneDuration t =
        \<lparr>minutes = 3, confidence = ''low'', detectedTypes = [], skipTo = None\<rparr>) \<and>
   estimateSceneDuration [] =
     \<lparr>minutes = 0, confidence = ''none'', detectedTypes = [], skipTo = None\<rparr>"
  using estimate_confidence [of t] estimate_no_match [of t]
  by (simp add: estimateSceneDuration_def)

theorem estimateSceneDuration_confidence_witness:
  "confidence (estimateSceneDuration (js_str ''...'')) \<in> {''low'', ''medium'', ''high''} \<and>
   minutes (estimateSceneDuration (js_str ''...'')) = 3"
  using estimateSceneDuration_confidence [of "js_str ''...''"] no_match_dots js_str_dots_nonempty
  by simp

text \<open>The claim as stated includes the empty string, where the confidence is
  \<open>none\<close> and the minutes are 0.\<close>

theorem estimateSceneDuration_empty_string:
  "confidence (estimateSceneDuration []) = ''none'' \<and>
   confidence (estimateSceneDuration []) \<notin> {''low'', ''medium'', ''high''} \<and>
   minutes (estimateSceneDuration []) = 0"
  by (simp add: estimateSceneDuration_def)

section \<open>Properties of the celestial tracker\<close>

subsection \<open>Celestial events\<close>

lemma fold_checkEvent:
  "fold (checkEvent l v d) table acc =
     acc @ map (\<lambda>entry. activeEvent (fst entry) (snd entry))
       (filter (\<lambda>entry. ce_condition (snd entry) l v d = Inr True) table)"
proof (induction table arbitrary: acc)
  case Nil
  then show ?case by simp
next
  case (Cons entry table)
  have step: "checkEvent l v d entry acc =
      acc @ map (\<lambda>entry. activeEvent (fst entry) (snd entry))
        (filter (\<lambda>entry. ce_condition (snd entry) l v d = Inr True) [entry])"
    by (cases "ce_condition (snd entry) l v d") (simp_all add: checkEvent_def Let_def)
  have "fold (checkEvent l v d) (entry # table) acc =
      fold (checkEvent l v d) table (checkEvent l v d entry acc)"
    by simp
  also have "\<dots> = checkEvent l v d entry acc @
      map (\<lambda>entry. activeEvent (fst entry) (snd entry))
        (filter (\<lambda>entry. ce_condition (snd entry) l v d = Inr True) table)"
    by (rule Cons.IH)
  finally show ?case
    unfolding step by simp
qed

lemma CELESTIAL_EVENTS_conditions_defined:
  "entry \<in> set CELESTIAL_EVENTS \<Longrightarrow>
   \<exists>b. ce_condition (snd entry) (Some l) (Some v) d = Inr b"
  by (auto simp: CELESTIAL_EVENTS_def js_and_def get_field_def)

text \<open>A state of the time engine has both moons, so every rule is evaluated on it.\<close>

lemma checkCelestialEvents_tracker_view:
  "checkCelestialEvents (tracker_view s) =
     map (\<lambda>entry. activeEvent (fst entry) (snd entry))
       (filter (\<lambda>entry. ce_condition (snd entry) (Some (lunara (moons s)))
           (Some (veil (moons s))) \<lparr>d_month = month s, d_day = day s\<rparr> = Inr True)
         CELESTIAL_EVENTS)"
  by (simp add: checkCelestialEvents_def checkCelestialEventsIn_def tracker_view_def
      fold_checkEvent)

text \<open>
  \<^bold>\<open>Claim C9\<close>, as amended. \<open>checkCelestialEvents\<close> returns a list on every time
  state. On a time state that has both moons, and for every table of rules, the result
  is, in the order of the table, one entry for each rule whose condition evaluates to
  true, carrying the rule's key and rarity; a rule whose condition throws, or is false,
  has no entry and does not keep the later rules from being evaluated; and none of the
  five conditions of \<open>CELESTIAL_EVENTS\<close> throws there. On a time state that lacks a
  moon the result is empty, and no rule is evaluated.
\<close>

theorem checkCelestialEvents_reports_true_rules:
  "(\<forall>ms l v. ts_moons ts = Some ms \<and> mv_lunara ms = Some l \<and> mv_veil ms = Some v \<longrightarrow>
      checkCelestialEventsIn table ts =
        map (\<lambda>entry. activeEvent (fst entry) (snd entry))
          (filter (\<lambda>entry. ce_condition (snd entry) (Some l) (Some v)
              \<lparr>d_month = ts_month ts, d_day = ts_day ts\<rparr> = Inr True) table) \<and>
      (\<forall>entry \<in> set CELESTIAL_EVENTS. \<exists>b. ce_condition (snd entry) (Some l) (Some v)
              \<lparr>d_month = ts_month ts, d_day = ts_day ts\<rparr> = Inr b)) \<and>
   (ts_moons ts = None \<or>
    (\<exists>ms. ts_moons ts = Some ms \<and> (mv_lunara ms = None \<or> mv_veil ms = None)) \<longrightarrow>
      checkCelestialEventsIn table ts = []) \<and>
   (\<forall>entry. ae_id (activeEvent (fst entry) (snd entry)) = fst entry \<and>
      ae_rarity (activeEvent (fst entry) (snd entry)) = ce_rarity (snd entry)) \<and>
   checkCelestialEvents ts = checkCelestialEventsIn CELESTIAL_EVENTS ts"
proof -
  have 1: "checkCelestialEventsIn table ts =
        map (\<lambda>entry. activeEvent (fst entry) (snd entry))
          (filter (\<lambda>entry. ce_condition (snd entry) (Some l) (Some v)
              \<lparr>d_month = ts_month ts, d_day = ts_day ts\<rparr> = Inr True) table)"
    if "ts_moons ts = Some ms" "mv_lunara ms = Some l" "mv_veil ms = Some v" for ms l v
    using that by (simp add: checkCelestialEventsIn_def fold_checkEvent)
  have 2: "checkCelestialEventsIn table ts = []"
    if "ts_moons ts = None \<or>
      (\<exists>ms. ts_moons ts = Some ms \<and> (mv_lunara ms = None \<or> mv_veil ms = None))"
    using that by (auto simp: checkCelestialEventsIn_def)
  have 3: "ae_id (activeEvent k e) = k \<and> ae_rarity (activeEvent k e) = ce_rarity e" for k e
    by (simp add: activeEvent_def)
  show ?thesis
    using 1 2 3 CELESTIAL_EVENTS_conditions_defined
    by (simp add: checkCelestialEvents_def)
qed

text \<open>On the twelfth of month 8, with the first moon full on day 14 of its cycle and
  the second full on day 18 of its own, three rules hold at once.\<close>

theorem checkCelestialEvents_reports_true_rules_witness:
  "map (\<lambda>e. (ae_id e, ae_rarity e))
     (checkCelestialEvents
        \<lparr>ts_year = 2847, ts_month = 8, ts_day = 12,
         ts_moons = Some
           \<lparr>mv_lunara = Some \<lparr>phase = Some ''full'', dayInCycle = 14, daysUntilFull = 0,
              daysUntilNew = 14, visible = None, effects = [], previousPhase = None\<rparr>,
            mv_veil = Some \<lparr>phase = Some ''full'', dayInCycle = 18, daysUntilFull = 34,
              daysUntilNew = 17, visible = Some True, effects = [], previousPhase = None\<rparr>\<rparr>\<rparr>) =
   [(''convergence'', ''very_rare''), (''silver_tide'', ''uncommon''), (''starfall'', ''annual'')]"
  using checkCelestialEvents_reports_true_rules [of
      "\<lparr>ts_year = 2847, ts_month = 8, ts_day = 12,
         ts_moons = Some
           \<lparr>mv_lunara = Some \<lparr>phase = Some ''full'', dayInCycle = 14, daysUntilFull = 0,
              daysUntilNew = 14, visible = None, effects = [], previousPhase = None\<rparr>,
            mv_veil = Some \<lparr>phase = Some ''full'', dayInCycle = 18, daysUntilFull = 34,
              daysUntilNew = 17, visible = Some True, effects = [], previousPhase = None\<rparr>\<rparr>\<rparr>"
      CELESTIAL_EVENTS]
  by (simp add: CELESTIAL_EVENTS_def activeEvent_def js_and_def get_field_def js_rem_def
      VEIL_cycle_def)

text \<open>The claim as stated holds of every time state. On a time state without moons,
  on the twelfth of month 8, the condition of the rule \<open>starfall\<close> evaluates to true
  (it reads the date only), and the result is empty.\<close>

theorem checkCelestialEvents_without_moons:
  "ce_condition (snd (CELESTIAL_EVENTS ! 4)) None None \<lparr>d_month = 8, d_day = 12\<rparr> = Inr True \<and>
   fst (CELESTIAL_EVENTS ! 4) = ''starfall'' \<and>
   checkCelestialEvents \<lparr>ts_year = 2847, ts_month = 8, ts_day = 12, ts_moons = None\<rparr> = []"
  by (simp add: CELESTIAL_EVENTS_def checkCelestialEvents_def checkCelestialEventsIn_def)

subsection \<open>Festivals\<close>

lemma upcomingEntry_fields [simp]:
  "f_name (upcomingEntry f d) = f_name f"
  "f_duration (upcomingEntry f d) = f_duration f"
  "daysUntil (upcomingEntry f d) = d"
  "isToday (upcomingEntry f d) = (d = 0)"
  "isOngoing (upcomingEntry f d) = (d < 0 \<and> d \<ge> - f_duration f)"
  by (simp_all add: upcomingEntry_def)

text \<open>Every month has a festival of another month in the table, and the first of them
  in table order makes the loop call \<open>getDaysUntilDate\<close>: as the module stands, the
  call of \<open>getUpcomingFestivals\<close> throws on every date.\<close>

lemma getUpcomingFestivals_throws:
  "getUpcomingFestivals ts daysAhead = Inl ReferenceError"
  by (simp add: getUpcomingFestivals_def FESTIVALS_def festivalDaysUntil_def
      getDaysUntilDate_def Let_def)





end
